theory Spec2Isabelle
  imports Complex_Main
begin

section \<open>JavaScript values used by the routes\<close>

text \<open>
  JSON documents, as sent by \<^verbatim>\<open>res.json\<close> and as parsed from the classifier's answer.
  Numbers are reals; object fields keep their insertion order.
\<close>

datatype json =
    JNull
  | JBool bool
  | JNum real
  | JStr string
  | JArr "json list"
  | JObj "(string \<times> json) list"

text \<open>
  A thrown JavaScript error: the optional \<^verbatim>\<open>status\<close> and \<^verbatim>\<open>code\<close> properties that the
  handlers inspect, its message, and its own enumerable properties (what \<^verbatim>\<open>res.json\<close>
  writes for the error object itself; none for a plain \<^verbatim>\<open>Error\<close>).
\<close>

record js_error =
  err_status :: "nat option"
  err_code :: "string option"
  err_message :: string
  err_enumerable :: "(string \<times> json) list"

text \<open>The result of an awaited call: it either throws or returns.\<close>

datatype 'a outcome = Threw js_error | Returned 'a

record response =
  status :: nat
  body :: json

text \<open>
  \<^verbatim>\<open>String.prototype.toLowerCase\<close> on the ASCII letters; every other character is kept.
  The routes only compare the result with an ASCII word, and no character outside ASCII
  has one of that word's letters as its lower case.
\<close>

definition toLowerCase_char :: "char \<Rightarrow> char" where
  "toLowerCase_char c =
     (case map_of (zip ''ABCDEFGHIJKLMNOPQRSTUVWXYZ'' ''abcdefghijklmnopqrstuvwxyz'') c of
        Some l \<Rightarrow> l
      | None \<Rightarrow> c)"

definition toLowerCase :: "string \<Rightarrow> string" where
  "toLowerCase s = map toLowerCase_char s"

text \<open>\<^verbatim>\<open>s.split(" ")\<close>: the pieces between single spaces, empty pieces included.\<close>

fun split_space :: "string \<Rightarrow> string list" where
  "split_space [] = [[]]"
| "split_space (c # cs) =
     (if c = CHR '' '' then [] # split_space cs
      else (case split_space cs of
              [] \<Rightarrow> [[c]]
            | w # ws \<Rightarrow> (c # w) # ws))"

text \<open>\<^verbatim>\<open>xs[i]\<close> on an array: \<^verbatim>\<open>undefined\<close> out of range.\<close>

fun index_opt :: "'a list \<Rightarrow> nat \<Rightarrow> 'a option" where
  "index_opt [] i = None"
| "index_opt (x # xs) 0 = Some x"
| "index_opt (x # xs) (Suc i) = index_opt xs i"

text \<open>\<^verbatim>\<open>s.startsWith(p)\<close>.\<close>

definition startsWith :: "string \<Rightarrow> string \<Rightarrow> bool" where
  "startsWith s p = (take (length p) s = p)"

text \<open>Looking a field up in a JSON object.\<close>

fun field :: "string \<Rightarrow> json \<Rightarrow> json option" where
  "field k (JObj kvs) = map_of kvs k"
| "field k _ = None"

section \<open>models/User.js\<close>

record user =
  user_id :: string
  name :: string
  role :: string
  email :: string
  phone :: string
  passwordHash :: string
  village :: "string option"
  language :: string
  createdAt :: nat
  lastLogin :: "nat option"
  updatedAt :: nat
  version_key :: nat

text \<open>An optional path of a document appears in its plain object only when it is set.\<close>

fun opt_field :: "string \<Rightarrow> json option \<Rightarrow> (string \<times> json) list" where
  "opt_field k None = []"
| "opt_field k (Some v) = [(k, v)]"

text \<open>\<^verbatim>\<open>this.toObject()\<close>: the plain object of a user document, every stored path.\<close>

definition toObject :: "user \<Rightarrow> (string \<times> json) list" where
  "toObject u =
     [(''_id'', JStr (user_id u)),
      (''name'', JStr (name u)),
      (''role'', JStr (role u)),
      (''email'', JStr (email u)),
      (''phone'', JStr (phone u)),
      (''passwordHash'', JStr (passwordHash u))]
     @ opt_field ''village'' (map_option JStr (village u))
     @ [(''language'', JStr (language u)),
        (''createdAt'', JNum (real (createdAt u)))]
     @ opt_field ''lastLogin'' (map_option (\<lambda>t. JNum (real t)) (lastLogin u))
     @ [(''updatedAt'', JNum (real (updatedAt u))),
        (''__v'', JNum (real (version_key u)))]"

text \<open>\<^verbatim>\<open>delete obj[k]\<close>.\<close>

definition delete_key :: "string \<Rightarrow> (string \<times> json) list \<Rightarrow> (string \<times> json) list" where
  "delete_key k kvs = filter (\<lambda>kv. fst kv \<noteq> k) kvs"

text \<open>\<^verbatim>\<open>userSchema.methods.toJSON\<close>: the plain object without the hash and the version key.\<close>

definition toJSON :: "user \<Rightarrow> json" where
  "toJSON u = JObj (delete_key ''__v'' (delete_key ''passwordHash'' (toObject u)))"

text \<open>Every key that occurs anywhere in a JSON document.\<close>

fun keys_of :: "json \<Rightarrow> string set" where
  "keys_of (JArr vs) = (\<Union>v \<in> set vs. keys_of v)"
| "keys_of (JObj kvs) = (\<Union>kv \<in> set kvs. insert (fst kv) (keys_of (snd kv)))"
| "keys_of _ = {}"

section \<open>The environment of one request\<close>

text \<open>The payload of a verified token; the routes read its \<^verbatim>\<open>userId\<close>.\<close>

record jwt_payload =
  userId :: string

text \<open>
  The file part of a multipart request, and the file object \<^verbatim>\<open>req.file\<close> that multer's disk
  storage builds from it.
\<close>

record file_part =
  part_originalname :: string
  part_mimetype :: string
  part_size :: nat

record multer_file =
  originalname :: string
  mimetype :: string
  filename :: string
  path :: string
  size_bytes :: nat

text \<open>
  The classifier's answer \<^verbatim>\<open>aiResponse.data\<close>. The label is \<open>None\<close> when the answer has no
  string under \<^verbatim>\<open>label\<close>; the confidence is \<open>None\<close> when it has no number under
  \<^verbatim>\<open>confidence\<close>.
\<close>

record prediction =
  label :: "string option"
  confidence :: "real option"
  probabilities :: "json option"

text \<open>
  What the outside world answers during one request: token verification, the identity
  store, the clock and the random source, the classifier, and the document store.
\<close>

record env =
  jwt_verify :: "string \<Rightarrow> jwt_payload outcome"
  User_findById :: "string \<Rightarrow> user option outcome"
  uniqueSuffix :: string
  extname :: "string \<Rightarrow> string"
  axios_post :: "multer_file \<Rightarrow> prediction outcome"
  random_disease :: real
  new_object_id :: string
  now :: nat
  insert_error :: "js_error option"
  node_env_development :: bool

section \<open>middleware/authMiddleware.js\<close>

definition fail_json :: "nat \<Rightarrow> string \<Rightarrow> response" where
  "fail_json st msg =
     \<lparr>status = st, body = JObj [(''success'', JBool False), (''message'', JStr msg)]\<rparr>"

text \<open>
  The repository holds two versions of this middleware. The upload route reads
  \<^verbatim>\<open>req.user._id\<close>, which only the version that loads the user from the store provides;
  that version is the one modelled.

  The middleware either answers itself (\<open>Inl\<close>) or attaches the user to the request and
  calls \<^verbatim>\<open>next()\<close> (\<open>Inr\<close>). A throw of \<^verbatim>\<open>jwt.verify\<close> or of the store lookup reaches
  the same \<^verbatim>\<open>catch\<close>.
\<close>

definition authMiddleware :: "env \<Rightarrow> string option \<Rightarrow> response + user" where
  "authMiddleware e authHeader =
     (case authHeader of
        None \<Rightarrow> Inl (fail_json 401 ''No token provided'')
      | Some h \<Rightarrow>
          if h = [] then Inl (fail_json 401 ''No token provided'')
          else (case index_opt (split_space h) 1 of
                  None \<Rightarrow> Inl (fail_json 401 ''Invalid token format'')
                | Some token \<Rightarrow>
                    if token = [] then Inl (fail_json 401 ''Invalid token format'')
                    else (case jwt_verify e token of
                            Threw err \<Rightarrow> Inl (fail_json 403 ''Token invalid or expired'')
                          | Returned decoded \<Rightarrow>
                              (case User_findById e (userId decoded) of
                                 Threw err \<Rightarrow> Inl (fail_json 403 ''Token invalid or expired'')
                               | Returned None \<Rightarrow> Inl (fail_json 404 ''User not found'')
                               | Returned (Some u) \<Rightarrow> Inr u))))"

section \<open>models/Upload.js\<close>

record disease_info =
  disease_name :: string
  preventiveMeasures :: "string list"

text \<open>
  The repository holds two versions of this schema. The upload route sets \<^verbatim>\<open>diseaseInfo\<close>,
  a path that only the later version declares (with the four-valued label enum and the
  confidence bound 1); that version is the one modelled.

  An upload document as the route constructs it (the paths the route sets).
\<close>

record upload_doc =
  doc_id :: string
  doc_userId :: string
  imageURL :: string
  doc_filename :: string
  doc_label :: string
  doc_confidence :: "real option"
  doc_probabilities :: json
  diseaseInfo :: "disease_info option"
  imageSize :: nat
  mimeType :: string
  timestamp :: nat

text \<open>Durable state: the paths that exist on disk and the upload collection.\<close>

record state =
  files :: "string set"
  uploads :: "upload_doc list"

definition label_enum :: "string list" where
  "label_enum = [''healthy'', ''diseased'', ''Healthy'', ''Diseased'']"

text \<open>
  The schema's validators, run by \<^verbatim>\<open>save()\<close> before anything is written: the paths that
  fail. A required string must be non-empty; \<^verbatim>\<open>label\<close> must be a member of the enum;
  \<^verbatim>\<open>confidence\<close> is required, with \<^verbatim>\<open>min: 0\<close> and \<^verbatim>\<open>max: 1\<close>.
\<close>

definition invalid_paths :: "upload_doc \<Rightarrow> string list" where
  "invalid_paths d =
     (if imageURL d = [] then [''imageURL''] else [])
     @ (if doc_filename d = [] then [''filename''] else [])
     @ (if doc_label d = [] \<or> doc_label d \<notin> set label_enum then [''label''] else [])
     @ (case doc_confidence d of
          None \<Rightarrow> [''confidence'']
        | Some c \<Rightarrow> if c < 0 \<or> 1 < c then [''confidence''] else [])"

text \<open>
  The \<^verbatim>\<open>ValidationError\<close> that \<^verbatim>\<open>save()\<close> rejects with; its message goes on with one
  clause per failing path, which no handler reads.
\<close>

definition validation_error :: "string list \<Rightarrow> js_error" where
  "validation_error ps =
     \<lparr>err_status = None, err_code = None,
      err_message = ''Upload validation failed'',
      err_enumerable = [(''errors'', JArr (map JStr ps)),
                        (''_message'', JStr ''Upload validation failed'')]\<rparr>"

text \<open>\<^verbatim>\<open>uploadRecord.save()\<close>: validation, then one insert, which the store may refuse.\<close>

definition save :: "env \<Rightarrow> upload_doc \<Rightarrow> state \<Rightarrow> js_error + state" where
  "save e d s =
     (if invalid_paths d \<noteq> [] then Inl (validation_error (invalid_paths d))
      else (case insert_error e of
              Some err \<Rightarrow> Inl err
            | None \<Rightarrow> Inr (s\<lparr>uploads := uploads s @ [d]\<rparr>)))"

text \<open>
  \<^verbatim>\<open>uploadSchema.statics.getUserStats\<close>: the documents of one user, grouped by label, each
  group with its count and the mean of its numeric confidences (\<^verbatim>\<open>null\<close> when it has
  none). Groups are listed in the order in which their labels first occur.
\<close>

record label_stats =
  stats_id :: string
  stats_count :: nat
  avgConfidence :: "real option"

definition numeric_confidences :: "upload_doc list \<Rightarrow> real list" where
  "numeric_confidences g =
     concat (map (\<lambda>d. case doc_confidence d of None \<Rightarrow> [] | Some c \<Rightarrow> [c]) g)"

definition avg :: "real list \<Rightarrow> real option" where
  "avg cs = (if cs = [] then None else Some (sum_list cs / real (length cs)))"

definition group_stats :: "upload_doc list \<Rightarrow> string \<Rightarrow> label_stats" where
  "group_stats ds l =
     (let g = filter (\<lambda>d. doc_label d = l) ds
      in \<lparr>stats_id = l, stats_count = length g, avgConfidence = avg (numeric_confidences g)\<rparr>)"

definition getUserStats :: "upload_doc list \<Rightarrow> string \<Rightarrow> label_stats list" where
  "getUserStats coll uid =
     (let matched = filter (\<lambda>d. doc_userId d = uid) coll
      in map (group_stats matched) (remdups (map doc_label matched)))"

section \<open>routes/upload.js\<close>

definition uploadDir :: string where
  "uploadDir = ''uploads''"

text \<open>The \<^verbatim>\<open>filename\<close> callback of the disk storage.\<close>

definition storage_filename :: "env \<Rightarrow> file_part \<Rightarrow> string" where
  "storage_filename e p = ''silkworm-'' @ uniqueSuffix e @ extname e (part_originalname p)"

text \<open>\<^verbatim>\<open>fileFilter\<close>: the error it passes to its callback, if any.\<close>

definition fileFilter :: "file_part \<Rightarrow> js_error option" where
  "fileFilter p =
     (if startsWith (part_mimetype p) ''image/'' then None
      else Some \<lparr>err_status = None, err_code = None,
                 err_message = ''Only image files allowed'', err_enumerable = []\<rparr>)"

definition fileSize_limit :: nat where
  "fileSize_limit = 10 * 1024 * 1024"

definition limit_file_size_error :: js_error where
  "limit_file_size_error =
     \<lparr>err_status = None, err_code = Some ''LIMIT_FILE_SIZE'',
      err_message = ''File too large'',
      err_enumerable = [(''name'', JStr ''MulterError''), (''message'', JStr ''File too large''),
                        (''code'', JStr ''LIMIT_FILE_SIZE''), (''field'', JStr ''image''),
                        (''storageErrors'', JArr [])]\<rparr>"

text \<open>
  \<^verbatim>\<open>upload.single("image")\<close>. Without a file part it calls \<^verbatim>\<open>next()\<close> with no
  \<^verbatim>\<open>req.file\<close>. A part the filter refuses is never written; a part longer than the limit
  is removed again; both call \<^verbatim>\<open>next(err)\<close> (\<open>Inl\<close>). Otherwise the file is on disk
  under the upload directory and \<^verbatim>\<open>req.file\<close> describes it.
\<close>

definition upload_single ::
  "env \<Rightarrow> file_part option \<Rightarrow> state \<Rightarrow> js_error + (multer_file option \<times> state)" where
  "upload_single e part s =
     (case part of
        None \<Rightarrow> Inr (None, s)
      | Some p \<Rightarrow>
          (case fileFilter p of
             Some err \<Rightarrow> Inl err
           | None \<Rightarrow>
               if fileSize_limit < part_size p then Inl limit_file_size_error
               else (let fname = storage_filename e p;
                         f = \<lparr>originalname = part_originalname p,
                              mimetype = part_mimetype p,
                              filename = fname,
                              path = uploadDir @ ''/'' @ fname,
                              size_bytes = part_size p\<rparr>
                     in Inr (Some f, s\<lparr>files := insert (path f) (files s)\<rparr>))))"

definition diseaseInfoMap :: "(string \<times> disease_info) list" where
  "diseaseInfoMap =
     [(''grasserie'',
       \<lparr>disease_name = ''Grasserie'',
        preventiveMeasures =
          [''Maintain hygiene in rearing house.'',
           ''Avoid overcrowding of silkworms.'',
           ''Disinfect rearing equipment regularly.'',
           ''Remove and destroy infected larvae immediately.'']\<rparr>),
      (''flacherie'',
       \<lparr>disease_name = ''Flacherie'',
        preventiveMeasures =
          [''Avoid feeding wet or contaminated mulberry leaves.'',
           ''Control temperature and humidity.'',
           ''Do not disturb worms during feeding.'',
           ''Destroy infected worms promptly.'']\<rparr>),
      (''muscardine'',
       \<lparr>disease_name = ''Muscardine'',
        preventiveMeasures =
          [''Dust larvae with slaked lime or fungal spore killers.'',
           ''Maintain dry and clean rearing environment.'',
           ''Dispose of dead larvae quickly.'']\<rparr>),
      (''pebrine'',
       \<lparr>disease_name = ''Pebrine'',
        preventiveMeasures =
          [''Use only disease-free silkworm eggs.'',
           ''Examine mother moths before egg laying.'',
           ''Destroy infected batches immediately.'']\<rparr>)]"

text \<open>
  The choice of a disease: \<^verbatim>\<open>diseases[Math.floor(Math.random() * diseases.length)]\<close>, then
  the lookup in the map; \<^verbatim>\<open>undefined\<close> (\<open>None\<close>) for an index outside the array.
\<close>

definition pick_disease :: "real \<Rightarrow> disease_info option" where
  "pick_disease r =
     (let diseases = map fst diseaseInfoMap;
          i = \<lfloor>r * real (length diseases)\<rfloor>
      in if i < 0 then None
         else (case index_opt diseases (nat i) of
                 None \<Rightarrow> None
               | Some k \<Rightarrow> map_of diseaseInfoMap k))"

definition enrich :: "env \<Rightarrow> string \<Rightarrow> disease_info option" where
  "enrich e lbl =
     (if toLowerCase lbl = ''diseased'' then pick_disease (random_disease e) else None)"

text \<open>\<^verbatim>\<open>prediction.probabilities || null\<close>.\<close>

fun falsy :: "json \<Rightarrow> bool" where
  "falsy JNull = True"
| "falsy (JBool b) = (\<not> b)"
| "falsy (JNum x) = (x = 0)"
| "falsy (JStr s) = (s = [])"
| "falsy _ = False"

definition or_null :: "json option \<Rightarrow> json" where
  "or_null v = (case v of None \<Rightarrow> JNull | Some j \<Rightarrow> if falsy j then JNull else j)"

definition new_upload :: "env \<Rightarrow> user \<Rightarrow> multer_file \<Rightarrow> prediction \<Rightarrow> string \<Rightarrow> upload_doc" where
  "new_upload e u f p lbl =
     \<lparr>doc_id = new_object_id e,
      doc_userId = user_id u,
      imageURL = ''/uploads/'' @ filename f,
      doc_filename = filename f,
      doc_label = lbl,
      doc_confidence = confidence p,
      doc_probabilities = or_null (probabilities p),
      diseaseInfo = enrich e lbl,
      imageSize = size_bytes f,
      mimeType = mimetype f,
      timestamp = now e\<rparr>"

definition success_response :: "upload_doc \<Rightarrow> multer_file \<Rightarrow> prediction \<Rightarrow> string \<Rightarrow> response" where
  "success_response d f p lbl =
     \<lparr>status = 200,
      body = JObj
        [(''success'', JBool True),
         (''message'', JStr ''Image uploaded & analyzed''),
         (''data'', JObj
            [(''uploadId'', JStr (doc_id d)),
             (''prediction'', JObj
                ([(''label'', JStr lbl)]
                 @ opt_field ''confidence'' (map_option JNum (confidence p))
                 @ [(''probabilities'', or_null (probabilities p)),
                    (''disease'',
                       (case diseaseInfo d of None \<Rightarrow> JNull | Some i \<Rightarrow> JStr (disease_name i))),
                    (''preventiveMeasures'',
                       (case diseaseInfo d of
                          None \<Rightarrow> JArr []
                        | Some i \<Rightarrow> JArr (map JStr (preventiveMeasures i))))])),
             (''image'', JObj
                [(''url'', JStr (imageURL d)),
                 (''filename'', JStr (filename f)),
                 (''size'', JNum (real (size_bytes f)))]),
             (''timestamp'', JNum (real (timestamp d)))])]\<rparr>"

text \<open>Reading \<^verbatim>\<open>.toLowerCase\<close> of a label that is not a string.\<close>

definition type_error :: js_error where
  "type_error =
     \<lparr>err_status = None, err_code = None,
      err_message = ''Cannot read properties of undefined (reading toLowerCase)'',
      err_enumerable = []\<rparr>"

text \<open>
  The \<^verbatim>\<open>try\<close> block of \<^verbatim>\<open>POST /\<close> once \<^verbatim>\<open>req.file\<close> is known to be set: \<open>Inl\<close> is the
  error thrown (nothing has been written by then), \<open>Inr\<close> the answer and the new state.
\<close>

definition try_upload :: "env \<Rightarrow> user \<Rightarrow> multer_file \<Rightarrow> state \<Rightarrow> js_error + (response \<times> state)" where
  "try_upload e u f s =
     (case axios_post e f of
        Threw err \<Rightarrow> Inl err
      | Returned p \<Rightarrow>
          (case label p of
             None \<Rightarrow> Inl type_error
           | Some lbl \<Rightarrow>
               (let d = new_upload e u f p lbl
                in (case save e d s of
                      Inl err \<Rightarrow> Inl err
                    | Inr s' \<Rightarrow> Inr (success_response d f p lbl, s')))))"

text \<open>The \<^verbatim>\<open>catch\<close> block: remove the file if it exists, then answer 503 or 500.\<close>

definition catch_upload :: "multer_file \<Rightarrow> js_error \<Rightarrow> state \<Rightarrow> response \<times> state" where
  "catch_upload f err s =
     (let s' = (if path f \<in> files s then s\<lparr>files := files s - {path f}\<rparr> else s)
      in if err_code err = Some ''ECONNREFUSED''
         then (fail_json 503 ''AI service unavailable. Ensure FastAPI is running.'', s')
         else (\<lparr>status = 500,
                body = JObj [(''success'', JBool False),
                             (''message'', JStr ''Error processing upload''),
                             (''error'', JStr (err_message err))]\<rparr>, s'))"

definition upload_handler :: "env \<Rightarrow> user \<Rightarrow> multer_file option \<Rightarrow> state \<Rightarrow> response \<times> state" where
  "upload_handler e u file s =
     (case file of
        None \<Rightarrow> (fail_json 400 ''No image file provided'', s)
      | Some f \<Rightarrow>
          (case try_upload e u f s of
             Inl err \<Rightarrow> catch_upload f err s
           | Inr r \<Rightarrow> r))"

section \<open>server.js\<close>

text \<open>The error-handling middleware, which receives what a middleware passes to \<^verbatim>\<open>next(err)\<close>.\<close>

definition error_handler :: "env \<Rightarrow> js_error \<Rightarrow> response" where
  "error_handler e err =
     \<lparr>status = (case err_status err of None \<Rightarrow> 500 | Some n \<Rightarrow> if n = 0 then 500 else n),
      body = JObj
        [(''success'', JBool False),
         (''message'', JStr (if err_message err = [] then ''Internal server error''
                             else err_message err)),
         (''error'', JObj (if node_env_development e then err_enumerable err else []))]\<rparr>"

definition not_found_handler :: response where
  "not_found_handler = fail_json 404 ''Route not found''"

record request =
  authorization :: "string option"
  image_part :: "file_part option"

text \<open>
  \<^verbatim>\<open>router.post("/", authMiddleware, upload.single("image"), handler)\<close> under the
  application's error handler: each stage runs only when the one before it called
  \<^verbatim>\<open>next()\<close>. This is the route's own chain; the application enters it only after its
  body parsers let the request through (\<open>server_post_upload\<close> below).
\<close>

definition post_upload :: "env \<Rightarrow> request \<Rightarrow> state \<Rightarrow> response \<times> state" where
  "post_upload e req s =
     (case authMiddleware e (authorization req) of
        Inl r \<Rightarrow> (r, s)
      | Inr u \<Rightarrow>
          (case upload_single e (image_part req) s of
             Inl err \<Rightarrow> (error_handler e err, s)
           | Inr (file, s1) \<Rightarrow> upload_handler e u file s1))"

text \<open>
  The body of a request as the application's body parsers see it. \<^verbatim>\<open>express.json()\<close> and
  \<^verbatim>\<open>express.urlencoded()\<close> skip a multipart body (which may carry an image part) and a
  request without a body; a JSON or form body either parses or makes the parser call
  \<^verbatim>\<open>next(err)\<close> with an error that carries its own status (400 for a malformed body, 413
  for one over the size limit).
\<close>

datatype request_body =
    Multipart "file_part option"
  | Parsed
  | Rejected js_error

record http_request =
  header_authorization :: "string option"
  http_body :: request_body

text \<open>
  \<^verbatim>\<open>app.use(express.json()); app.use(express.urlencoded({ extended: true }))\<close>: the error
  passed to \<^verbatim>\<open>next(err)\<close>, if any.
\<close>

fun body_parsers :: "request_body \<Rightarrow> js_error option" where
  "body_parsers (Rejected err) = Some err"
| "body_parsers _ = None"

text \<open>What the router sees of a request: only a multipart body has a file part for multer.\<close>

fun multipart_image :: "request_body \<Rightarrow> file_part option" where
  "multipart_image (Multipart p) = p"
| "multipart_image _ = None"

definition routed :: "http_request \<Rightarrow> request" where
  "routed rq = \<lparr>authorization = header_authorization rq,
               image_part = multipart_image (http_body rq)\<rparr>"

text \<open>
  \<^verbatim>\<open>POST /upload\<close> as the application serves it: the body parsers registered before the
  routers run first (\<^verbatim>\<open>cors()\<close> before them only adds headers to a \<^verbatim>\<open>POST\<close>), and an
  error of theirs goes straight to the error handler; otherwise the upload router's chain
  runs.
\<close>

definition server_post_upload :: "env \<Rightarrow> http_request \<Rightarrow> state \<Rightarrow> response \<times> state" where
  "server_post_upload e rq s =
     (case body_parsers (http_body rq) of
        Some err \<Rightarrow> (error_handler e err, s)
      | None \<Rightarrow> post_upload e (routed rq) s)"

text \<open>Routing: the two routers mounted by the application, then its own routes.\<close>

datatype http_method = GET | POST | PUT | DELETE

datatype endpoint =
    Auth_signup | Auth_login | Auth_me
  | Upload_post | Upload_history
  | Root | Health | Not_found

definition auth_router :: "http_method \<Rightarrow> string \<Rightarrow> endpoint option" where
  "auth_router m p =
     (if m = POST \<and> p = ''/signup'' then Some Auth_signup
      else if m = POST \<and> p = ''/login'' then Some Auth_login
      else if m = GET \<and> p = ''/me'' then Some Auth_me
      else None)"

definition upload_router :: "http_method \<Rightarrow> string \<Rightarrow> endpoint option" where
  "upload_router m p =
     (if m = POST \<and> p = ''/'' then Some Upload_post
      else if m = GET \<and> p = ''/history'' then Some Upload_history
      else None)"

text \<open>\<^verbatim>\<open>app.use(prefix, router)\<close>: the path the router sees, when the prefix matches.\<close>

definition mounted :: "string \<Rightarrow> string \<Rightarrow> string option" where
  "mounted prefix p =
     (if p = prefix then Some ''/''
      else if startsWith p (prefix @ ''/'') then Some (drop (length prefix) p)
      else None)"

definition via :: "string \<Rightarrow> (http_method \<Rightarrow> string \<Rightarrow> endpoint option) \<Rightarrow>
    http_method \<Rightarrow> string \<Rightarrow> endpoint option" where
  "via prefix router m p = (case mounted prefix p of None \<Rightarrow> None | Some q \<Rightarrow> router m q)"

definition app_route :: "http_method \<Rightarrow> string \<Rightarrow> endpoint" where
  "app_route m p =
     (case via ''/auth'' auth_router m p of
        Some h \<Rightarrow> h
      | None \<Rightarrow>
          (case via ''/upload'' upload_router m p of
             Some h \<Rightarrow> h
           | None \<Rightarrow>
               if m = GET \<and> p = ''/'' then Root
               else if m = GET \<and> p = ''/health'' then Health
               else Not_found))"

section \<open>routes/auth.js\<close>

text \<open>\<^verbatim>\<open>GET /auth/me\<close>; \<^verbatim>\<open>res.json\<close> serialises the user document through its \<^verbatim>\<open>toJSON\<close>.\<close>

definition invalid_token :: "js_error \<Rightarrow> response" where
  "invalid_token err =
     \<lparr>status = 401,
      body = JObj [(''success'', JBool False), (''message'', JStr ''Invalid token''),
                   (''error'', JStr (err_message err))]\<rparr>"

definition get_me :: "env \<Rightarrow> string option \<Rightarrow> response" where
  "get_me e auth =
     (let token = (case auth of None \<Rightarrow> None | Some h \<Rightarrow> index_opt (split_space h) 1)
      in (case token of
            None \<Rightarrow> fail_json 401 ''No token provided''
          | Some t \<Rightarrow>
              if t = [] then fail_json 401 ''No token provided''
              else (case jwt_verify e t of
                      Threw err \<Rightarrow> invalid_token err
                    | Returned decoded \<Rightarrow>
                        (case User_findById e (userId decoded) of
                           Threw err \<Rightarrow> invalid_token err
                         | Returned None \<Rightarrow> fail_json 404 ''User not found''
                         | Returned (Some u) \<Rightarrow>
                             \<lparr>status = 200,
                              body = JObj [(''success'', JBool True),
                                           (''data'', JObj [(''user'', toJSON u)])]\<rparr>))))"

text \<open>Reading a nested field of a JSON document.\<close>

fun get_in :: "string list \<Rightarrow> json \<Rightarrow> json option" where
  "get_in [] j = Some j"
| "get_in (k # ks) j = (case field k j of None \<Rightarrow> None | Some v \<Rightarrow> get_in ks v)"

section \<open>Scenarios\<close>

text \<open>
  Concrete requests and environments, used to run the routes: one registered farmer, a
  token \<open>good\<close> for that farmer, a token \<open>stale\<close> whose subject has been removed, and
  every other token failing verification.
\<close>

definition farmer :: user where
  "farmer =
     \<lparr>user_id = ''u1'', name = ''Ravi Kumar'', role = ''farmer'',
      email = ''ravi.test@example.com'', phone = ''9876543210'',
      passwordHash = ''$2a$10$abcdefghijklmnopqrstuv'',
      village = Some ''Ramanagara'', language = ''kannada'',
      createdAt = 1700000000000, lastLogin = None,
      updatedAt = 1700000000000, version_key = 0\<rparr>"

definition jwt_error :: js_error where
  "jwt_error =
     \<lparr>err_status = None, err_code = None, err_message = ''invalid signature'',
      err_enumerable = [(''name'', JStr ''JsonWebTokenError''),
                        (''message'', JStr ''invalid signature'')]\<rparr>"

definition scenario_env :: "prediction outcome \<Rightarrow> env" where
  "scenario_env answer =
     \<lparr>jwt_verify = (\<lambda>t. if t = ''good'' then Returned \<lparr>userId = ''u1''\<rparr>
                        else if t = ''stale'' then Returned \<lparr>userId = ''u0''\<rparr>
                        else Threw jwt_error),
      User_findById = (\<lambda>i. Returned (if i = ''u1'' then Some farmer else None)),
      uniqueSuffix = ''1700000000000-123456789'',
      extname = dropWhile (\<lambda>c. c \<noteq> CHR ''.''),
      axios_post = (\<lambda>f. answer),
      random_disease = 1 / 2,
      new_object_id = ''650000000000000000000001'',
      now = 1700000000000,
      insert_error = None,
      node_env_development = False\<rparr>"

definition jpeg_part :: file_part where
  "jpeg_part = \<lparr>part_originalname = ''worm.jpg'', part_mimetype = ''image/jpeg'',
                 part_size = 204800\<rparr>"

definition text_part :: file_part where
  "text_part = \<lparr>part_originalname = ''notes.txt'', part_mimetype = ''text/plain'',
                 part_size = 120\<rparr>"

definition request_with :: "string option \<Rightarrow> file_part option \<Rightarrow> request" where
  "request_with h p = \<lparr>authorization = h, image_part = p\<rparr>"

definition jpeg_request :: request where
  "jpeg_request = request_with (Some ''Bearer good'') (Some jpeg_part)"

definition jpeg_file :: multer_file where
  "jpeg_file =
     \<lparr>originalname = ''worm.jpg'', mimetype = ''image/jpeg'',
      filename = ''silkworm-1700000000000-123456789.jpg'',
      path = ''uploads/silkworm-1700000000000-123456789.jpg'',
      size_bytes = 204800\<rparr>"

definition empty_state :: state where
  "empty_state = \<lparr>files = {}, uploads = []\<rparr>"

definition healthy_prediction :: prediction where
  "healthy_prediction = \<lparr>label = Some ''healthy'', confidence = Some (92 / 100),
                          probabilities = None\<rparr>"

definition diseased_prediction :: prediction where
  "diseased_prediction =
     \<lparr>label = Some ''Diseased'', confidence = Some (81 / 100),
      probabilities = Some (JObj [(''Healthy'', JNum (19 / 100)),
                                  (''Diseased'', JNum (81 / 100))])\<rparr>"

definition connection_refused :: js_error where
  "connection_refused =
     \<lparr>err_status = None, err_code = Some ''ECONNREFUSED'',
      err_message = ''connect ECONNREFUSED 127.0.0.1:8000'', err_enumerable = []\<rparr>"

definition timeout_exceeded :: js_error where
  "timeout_exceeded =
     \<lparr>err_status = None, err_code = Some ''ECONNABORTED'',
      err_message = ''timeout of 30000ms exceeded'', err_enumerable = []\<rparr>"

text \<open>Where the disk storage puts the file of a part.\<close>

definition stored_path :: "env \<Rightarrow> file_part \<Rightarrow> string" where
  "stored_path e p = uploadDir @ ''/'' @ storage_filename e p"

text \<open>The document that the first scenario stores.\<close>

definition healthy_doc :: upload_doc where
  "healthy_doc =
     \<lparr>doc_id = ''650000000000000000000001'', doc_userId = ''u1'',
      imageURL = ''/uploads/silkworm-1700000000000-123456789.jpg'',
      doc_filename = ''silkworm-1700000000000-123456789.jpg'',
      doc_label = ''healthy'', doc_confidence = Some (92 / 100),
      doc_probabilities = JNull, diseaseInfo = None,
      imageSize = 204800, mimeType = ''image/jpeg'', timestamp = 1700000000000\<rparr>"

text \<open>The schema's bound on a stored confidence.\<close>

definition confidence_in_range :: "upload_doc \<Rightarrow> bool" where
  "confidence_in_range d = (case doc_confidence d of None \<Rightarrow> False | Some c \<Rightarrow> 0 \<le> c \<and> c \<le> 1)"

text \<open>Further scenario data: the document of the second scenario, the state after the first,
  a label in capitals and a confidence given in percent.\<close>

definition diseased_doc :: upload_doc where
  "diseased_doc =
     \<lparr>doc_id = ''650000000000000000000001'', doc_userId = ''u1'',
      imageURL = ''/uploads/silkworm-1700000000000-123456789.jpg'',
      doc_filename = ''silkworm-1700000000000-123456789.jpg'',
      doc_label = ''Diseased'', doc_confidence = Some (81 / 100),
      doc_probabilities = JObj [(''Healthy'', JNum (19 / 100)), (''Diseased'', JNum (81 / 100))],
      diseaseInfo = map_of diseaseInfoMap ''muscardine'',
      imageSize = 204800, mimeType = ''image/jpeg'', timestamp = 1700000000000\<rparr>"

definition after_healthy :: state where
  "after_healthy = \<lparr>files = {path jpeg_file}, uploads = [healthy_doc]\<rparr>"

definition shouting_prediction :: prediction where
  "shouting_prediction = \<lparr>label = Some ''DISEASED'', confidence = Some (81 / 100),
                           probabilities = None\<rparr>"

definition percent_prediction :: prediction where
  "percent_prediction = \<lparr>label = Some ''healthy'', confidence = Some 92,
                          probabilities = None\<rparr>"

text \<open>The same identity store with other password hashes: each stored user \<open>u\<close> carries
  the hash \<open>g u\<close> instead of its own.\<close>

definition with_hashes ::
  "(user \<Rightarrow> string) \<Rightarrow> (string \<Rightarrow> user option outcome) \<Rightarrow> string \<Rightarrow> user option outcome" where
  "with_hashes g lookup i =
     (case lookup i of
        Threw err \<Rightarrow> Threw err
      | Returned None \<Rightarrow> Returned None
      | Returned (Some u) \<Rightarrow> Returned (Some (u\<lparr>passwordHash := g u\<rparr>)))"

text \<open>The error of \<^verbatim>\<open>express.json()\<close> on a body that is not JSON.\<close>

definition malformed_json :: js_error where
  "malformed_json =
     \<lparr>err_status = Some 400, err_code = None,
      err_message = ''Unexpected token } in JSON at position 1'',
      err_enumerable = [(''expose'', JBool True), (''statusCode'', JNum 400),
                        (''status'', JNum 400), (''body'', JStr ''{}}''),
                        (''type'', JStr ''entity.parse.failed'')]\<rparr>"

text \<open>An image one byte over the size limit.\<close>

definition huge_part :: file_part where
  "huge_part = \<lparr>part_originalname = ''worm.png'', part_mimetype = ''image/png'',
                 part_size = 10 * 1024 * 1024 + 1\<rparr>"

section \<open>Basic facts about the upload pipeline\<close>

lemma catch_upload_files: "files (snd (catch_upload f err s)) = files s - {path f}"
  by (auto simp: catch_upload_def Let_def)

lemma catch_upload_uploads: "uploads (snd (catch_upload f err s)) = uploads s"
  by (simp add: catch_upload_def Let_def)

lemma catch_upload_status:
  "status (fst (catch_upload f err s)) = (if err_code err = Some ''ECONNREFUSED'' then 503 else 500)"
  by (simp add: catch_upload_def Let_def fail_json_def)

lemma authMiddleware_Inl_status:
  "authMiddleware e h = Inl r \<Longrightarrow> status r = 401 \<or> status r = 403 \<or> status r = 404"
  by (auto simp: authMiddleware_def fail_json_def split: option.splits if_splits outcome.splits)

lemma upload_single_Inl:
  "upload_single e part s = Inl err \<Longrightarrow> err_status err = None"
  by (auto simp: upload_single_def fileFilter_def limit_file_size_error_def Let_def split: option.splits if_splits)

lemma upload_single_Inr:
  "upload_single e part s = Inr (file, s1) \<Longrightarrow>
     (part = None \<and> file = None \<and> s1 = s) \<or>
     (\<exists>p f. part = Some p \<and> file = Some f \<and> startsWith (part_mimetype p) ''image/'' \<and> part_size p \<le> fileSize_limit
        \<and> path f = uploadDir @ ''/'' @ storage_filename e p \<and> filename f = storage_filename e p
        \<and> s1 = s\<lparr>files := insert (path f) (files s)\<rparr>)"
  by (auto simp: upload_single_def fileFilter_def Let_def split: option.splits if_splits)

lemma try_upload_Inr:
  "try_upload e u f s = Inr (r, s') \<Longrightarrow>
     \<exists>p lbl. axios_post e f = Returned p \<and> label p = Some lbl
        \<and> invalid_paths (new_upload e u f p lbl) = [] \<and> insert_error e = None
        \<and> r = success_response (new_upload e u f p lbl) f p lbl
        \<and> s' = s\<lparr>uploads := uploads s @ [new_upload e u f p lbl]\<rparr>"
  by (auto simp: try_upload_def save_def Let_def split: outcome.splits option.splits if_splits)

lemma error_handler_status:
  "err_status err = None \<Longrightarrow> status (error_handler e err) = 500"
  by (simp add: error_handler_def)

lemma upload_handler_cases:
  "upload_handler e u file s = (r, s') \<Longrightarrow>
     (file = None \<and> r = fail_json 400 ''No image file provided'' \<and> s' = s) \<or>
     (\<exists>f err. file = Some f \<and> try_upload e u f s = Inl err \<and> (r, s') = catch_upload f err s) \<or>
     (\<exists>f. file = Some f \<and> try_upload e u f s = Inr (r, s'))"
  by (auto simp: upload_handler_def split: option.splits sum.splits)

lemma post_upload_cases:
  assumes "post_upload e req s = (r, s')"
  shows "(authMiddleware e (authorization req) = Inl r \<and> s' = s)
       \<or> (\<exists>u err. authMiddleware e (authorization req) = Inr u
              \<and> upload_single e (image_part req) s = Inl err \<and> r = error_handler e err \<and> s' = s)
       \<or> (\<exists>u file s1. authMiddleware e (authorization req) = Inr u
              \<and> upload_single e (image_part req) s = Inr (file, s1)
              \<and> upload_handler e u file s1 = (r, s'))"
  using assms by (auto simp: post_upload_def split: sum.splits prod.splits)

lemma post_upload_200:
  assumes run: "post_upload e req s = (r, s')" and ok: "status r = 200"
  shows "\<exists>u part f p lbl.
           authMiddleware e (authorization req) = Inr u
         \<and> image_part req = Some part
         \<and> upload_single e (image_part req) s = Inr (Some f, s\<lparr>files := insert (path f) (files s)\<rparr>)
         \<and> path f = uploadDir @ ''/'' @ storage_filename e part
         \<and> axios_post e f = Returned p \<and> label p = Some lbl
         \<and> invalid_paths (new_upload e u f p lbl) = [] \<and> insert_error e = None
         \<and> r = success_response (new_upload e u f p lbl) f p lbl
         \<and> s' = s\<lparr>files := insert (path f) (files s),
                  uploads := uploads s @ [new_upload e u f p lbl]\<rparr>"
proof -
  from post_upload_cases [OF run] consider
      (auth) "authMiddleware e (authorization req) = Inl r"
    | (intake) err where "upload_single e (image_part req) s = Inl err" "r = error_handler e err"
    | (handler) u fl s1 where "authMiddleware e (authorization req) = Inr u"
        "upload_single e (image_part req) s = Inr (fl, s1)"
        "upload_handler e u fl s1 = (r, s')"
    by blast
  then show ?thesis
  proof cases
    case auth
    from authMiddleware_Inl_status [OF this] ok show ?thesis by simp
  next
    case intake
    with upload_single_Inl [OF intake(1)] ok show ?thesis
      by (simp add: error_handler_status)
  next
    case handler
    from upload_handler_cases [OF handler(3)] consider
        (nofile) "r = fail_json 400 ''No image file provided''"
      | (caught) f err where "(r, s') = catch_upload f err s1"
      | (saved) f where "fl = Some f" "try_upload e u f s1 = Inr (r, s')"
      by blast
    then show ?thesis
    proof cases
      case nofile
      with ok show ?thesis by (simp add: fail_json_def)
    next
      case caught
      then have "r = fst (catch_upload f err s1)" by (metis fst_conv)
      with ok catch_upload_status [of f err s1] show ?thesis by (simp split: if_splits)
    next
      case saved
      from upload_single_Inr [OF handler(2)] saved(1) obtain part where
        part: "image_part req = Some part" "path f = uploadDir @ ''/'' @ storage_filename e part"
          "s1 = s\<lparr>files := insert (path f) (files s)\<rparr>"
        by auto
      from try_upload_Inr [OF saved(2)] obtain p lbl where
        p: "axios_post e f = Returned p" "label p = Some lbl"
          "invalid_paths (new_upload e u f p lbl) = []" "insert_error e = None"
          "r = success_response (new_upload e u f p lbl) f p lbl"
          "s' = s1\<lparr>uploads := uploads s1 @ [new_upload e u f p lbl]\<rparr>"
        by blast
      show ?thesis
        using handler(1,2) saved(1) part p by auto
    qed
  qed
qed

section \<open>The scenarios, run\<close>

lemma scenario_auth:
  "authMiddleware (scenario_env a) (authorization jpeg_request) = Inr farmer"
  by (simp add: authMiddleware_def scenario_env_def jpeg_request_def request_with_def)

lemma scenario_intake:
  "upload_single (scenario_env a) (image_part jpeg_request) s
     = Inr (Some jpeg_file, s\<lparr>files := insert (path jpeg_file) (files s)\<rparr>)"
  by (simp add: upload_single_def fileFilter_def startsWith_def fileSize_limit_def
      storage_filename_def uploadDir_def scenario_env_def jpeg_request_def request_with_def
      jpeg_part_def jpeg_file_def Let_def)

lemma scenario_forged:
  "authMiddleware (scenario_env a) (Some ''Bearer forged'')
     = Inl (fail_json 403 ''Token invalid or expired'')"
  by (simp add: authMiddleware_def scenario_env_def)

section \<open>Credential verification precedes file intake\<close>

lemma router_rejects_missing_credential:
  "(authorization req = None
      \<or> (\<exists>x. authorization req = Some x \<and> index_opt (split_space x) 1 = None)
     \<longrightarrow> status (fst (post_upload e req s)) = 401 \<and> snd (post_upload e req s) = s)
   \<and> (authorization req = None \<longrightarrow>
        post_upload e req s = (fail_json 401 ''No token provided'', s))
   \<and> (authMiddleware e (authorization req) = Inl r \<longrightarrow> post_upload e req s = (r, s))"
  by (auto simp: post_upload_def authMiddleware_def fail_json_def)

lemma server_post_upload_passed:
  "body_parsers (http_body rq) = None \<Longrightarrow>
     server_post_upload e rq s = post_upload e (routed rq) s"
  by (simp add: server_post_upload_def)

lemma server_post_upload_rejected:
  "body_parsers (http_body rq) = Some err \<Longrightarrow>
     server_post_upload e rq s = (error_handler e err, s)"
  by (simp add: server_post_upload_def)

lemma authorization_routed: "authorization (routed rq) = header_authorization rq"
  by (simp add: routed_def)

text \<open>
  Claim C9, as stated, does not hold: a request without a credential whose JSON body does
  not parse is answered by the error handler with the parser's status 400, before the
  credential check runs. Nothing is written.
\<close>

theorem missing_credential_malformed_body_counterexample:
  "server_post_upload (scenario_env (Returned healthy_prediction))
       \<lparr>header_authorization = None, http_body = Rejected malformed_json\<rparr> empty_state
     = (\<lparr>status = 400,
          body = JObj [(''success'', JBool False),
                       (''message'', JStr ''Unexpected token } in JSON at position 1''),
                       (''error'', JObj [])]\<rparr>, empty_state)
   \<and> status (fst (server_post_upload (scenario_env (Returned healthy_prediction))
       \<lparr>header_authorization = None, http_body = Rejected malformed_json\<rparr> empty_state)) \<noteq> 401"
  by (simp add: server_post_upload_def error_handler_def malformed_json_def scenario_env_def)

text \<open>
  Claim C9, amended. A \<^verbatim>\<open>POST /upload\<close> request without an \<^verbatim>\<open>Authorization\<close> header, or
  whose header has nothing after a space, leaves the durable state (the upload directory and
  the collection) as it was. It is answered with status 401 whenever the application's body
  parsers accept or skip its body, as they do for every multipart body; when they reject the
  body, the error handler answers with the parser's error before the credential check runs.
  Within the route the credential check runs first: whenever it answers by itself, the later
  stages, file intake included, do not run.
\<close>

theorem missing_credential_never_writes:
  "(header_authorization rq = None
      \<or> (\<exists>x. header_authorization rq = Some x \<and> index_opt (split_space x) 1 = None)
     \<longrightarrow> snd (server_post_upload e rq s) = s
         \<and> (body_parsers (http_body rq) = None
              \<longrightarrow> status (fst (server_post_upload e rq s)) = 401)
         \<and> (\<forall>err. body_parsers (http_body rq) = Some err
              \<longrightarrow> fst (server_post_upload e rq s) = error_handler e err))
   \<and> (header_authorization rq = None \<and> body_parsers (http_body rq) = None
        \<longrightarrow> server_post_upload e rq s = (fail_json 401 ''No token provided'', s))
   \<and> (authMiddleware e (header_authorization rq) = Inl r
        \<longrightarrow> snd (server_post_upload e rq s) = s
            \<and> (body_parsers (http_body rq) = None \<longrightarrow> server_post_upload e rq s = (r, s)))"
proof -
  have router: "(authorization (routed rq) = None
      \<or> (\<exists>x. authorization (routed rq) = Some x \<and> index_opt (split_space x) 1 = None)
     \<longrightarrow> status (fst (post_upload e (routed rq) s)) = 401
         \<and> snd (post_upload e (routed rq) s) = s)
   \<and> (authorization (routed rq) = None \<longrightarrow>
        post_upload e (routed rq) s = (fail_json 401 ''No token provided'', s))
   \<and> (authMiddleware e (authorization (routed rq)) = Inl r
        \<longrightarrow> post_upload e (routed rq) s = (r, s))"
    by (rule router_rejects_missing_credential)
  show ?thesis
  proof (cases "body_parsers (http_body rq)")
    case None
    with router show ?thesis
      by (auto simp: server_post_upload_passed authorization_routed fail_json_def)
  next
    case (Some err)
    then show ?thesis
      by (simp add: server_post_upload_rejected)
  qed
qed

theorem missing_credential_never_writes_witness:
  "server_post_upload (scenario_env (Returned healthy_prediction))
       \<lparr>header_authorization = None, http_body = Multipart (Some jpeg_part)\<rparr> empty_state
     = (fail_json 401 ''No token provided'', empty_state)
   \<and> status (fst (server_post_upload (scenario_env (Returned healthy_prediction))
       \<lparr>header_authorization = Some ''Bearer'', http_body = Multipart (Some jpeg_part)\<rparr>
       empty_state)) = 401
   \<and> snd (server_post_upload (scenario_env (Returned healthy_prediction))
       \<lparr>header_authorization = Some ''Bearer'', http_body = Multipart (Some jpeg_part)\<rparr>
       empty_state) = empty_state
   \<and> fst (server_post_upload (scenario_env (Returned healthy_prediction))
       \<lparr>header_authorization = None, http_body = Rejected malformed_json\<rparr> empty_state)
     = error_handler (scenario_env (Returned healthy_prediction)) malformed_json
   \<and> snd (server_post_upload (scenario_env (Returned healthy_prediction))
       \<lparr>header_authorization = None, http_body = Rejected malformed_json\<rparr> empty_state)
     = empty_state
   \<and> server_post_upload (scenario_env (Returned healthy_prediction))
       \<lparr>header_authorization = Some ''Bearer forged'', http_body = Multipart (Some jpeg_part)\<rparr>
       empty_state
     = (fail_json 403 ''Token invalid or expired'', empty_state)"
proof -
  let ?e = "scenario_env (Returned healthy_prediction)"
  let ?anonymous = "\<lparr>header_authorization = None, http_body = Multipart (Some jpeg_part)\<rparr>"
  let ?lone = "\<lparr>header_authorization = Some ''Bearer'', http_body = Multipart (Some jpeg_part)\<rparr>"
  let ?broken = "\<lparr>header_authorization = None, http_body = Rejected malformed_json\<rparr>"
  let ?forged = "\<lparr>header_authorization = Some ''Bearer forged'',
                  http_body = Multipart (Some jpeg_part)\<rparr>"
  have lone: "index_opt (split_space ''Bearer'') 1 = None"
    by simp
  have a: "server_post_upload ?e ?anonymous empty_state
      = (fail_json 401 ''No token provided'', empty_state)"
    using missing_credential_never_writes [of ?anonymous ?e empty_state] by simp
  have b: "status (fst (server_post_upload ?e ?lone empty_state)) = 401
      \<and> snd (server_post_upload ?e ?lone empty_state) = empty_state"
    using missing_credential_never_writes [of ?lone ?e empty_state] lone by simp
  have c: "fst (server_post_upload ?e ?broken empty_state) = error_handler ?e malformed_json
      \<and> snd (server_post_upload ?e ?broken empty_state) = empty_state"
    using missing_credential_never_writes [of ?broken ?e empty_state] by simp
  have d: "server_post_upload ?e ?forged empty_state
      = (fail_json 403 ''Token invalid or expired'', empty_state)"
    using missing_credential_never_writes
        [of ?forged ?e empty_state "fail_json 403 ''Token invalid or expired''"]
      scenario_forged [of "Returned healthy_prediction"]
    by simp
  from a b c d show ?thesis by blast
qed

section \<open>Classifier failures\<close>

text \<open>
  Claim C3. When the credential is accepted, the file is stored and the classifier call
  throws, the answer has status 503 exactly when the error's code is \<^verbatim>\<open>ECONNREFUSED\<close>
  (the endpoint refused the connection), and status 500 with the generic message for every
  other error.
\<close>

theorem classifier_failure_status:
  assumes auth: "authMiddleware e (authorization req) = Inr u"
    and intake: "upload_single e (image_part req) s = Inr (Some f, s1)"
    and failed: "axios_post e f = Threw err"
  shows "status (fst (post_upload e req s))
           = (if err_code err = Some ''ECONNREFUSED'' then 503 else 500)
       \<and> get_in [''message''] (body (fst (post_upload e req s)))
           = Some (JStr (if err_code err = Some ''ECONNREFUSED''
                         then ''AI service unavailable. Ensure FastAPI is running.''
                         else ''Error processing upload''))"
proof -
  have "try_upload e u f s1 = Inl err"
    using failed by (simp add: try_upload_def)
  then have "post_upload e req s = catch_upload f err s1"
    using auth intake by (simp add: post_upload_def upload_handler_def)
  then show ?thesis
    by (simp add: catch_upload_def Let_def fail_json_def)
qed

theorem classifier_failure_status_witness:
  "status (fst (post_upload (scenario_env (Threw connection_refused)) jpeg_request empty_state)) = 503
   \<and> status (fst (post_upload (scenario_env (Threw timeout_exceeded)) jpeg_request empty_state)) = 500"
  using classifier_failure_status
      [OF scenario_auth scenario_intake, of "Threw connection_refused" connection_refused empty_state]
    classifier_failure_status
      [OF scenario_auth scenario_intake, of "Threw timeout_exceeded" timeout_exceeded empty_state]
  by (simp add: scenario_env_def connection_refused_def timeout_exceeded_def)

lemma toLowerCase_enum:
  "toLowerCase ''healthy'' = ''healthy''" "toLowerCase ''Healthy'' = ''healthy''"
  "toLowerCase ''diseased'' = ''diseased''" "toLowerCase ''Diseased'' = ''diseased''"
  by (simp_all add: toLowerCase_def toLowerCase_char_def)

lemma scenario_healthy_doc:
  "new_upload (scenario_env a) farmer jpeg_file healthy_prediction ''healthy'' = healthy_doc"
  by (simp add: new_upload_def scenario_env_def farmer_def jpeg_file_def healthy_prediction_def
      healthy_doc_def or_null_def enrich_def toLowerCase_enum)

lemma healthy_doc_valid: "invalid_paths healthy_doc = []"
  by (simp add: invalid_paths_def healthy_doc_def label_enum_def)

lemma scenario_answer: "axios_post (scenario_env a) f = a"
  by (simp add: scenario_env_def)

lemma scenario_insert: "insert_error (scenario_env a) = None"
  by (simp add: scenario_env_def)

lemma healthy_label: "label healthy_prediction = Some ''healthy''"
  by (simp add: healthy_prediction_def)

lemma scenario_healthy_run:
  "post_upload (scenario_env (Returned healthy_prediction)) jpeg_request empty_state
     = (success_response healthy_doc jpeg_file healthy_prediction ''healthy'',
        \<lparr>files = {path jpeg_file}, uploads = [healthy_doc]\<rparr>)"
proof -
  have "try_upload (scenario_env (Returned healthy_prediction)) farmer jpeg_file
          (empty_state\<lparr>files := insert (path jpeg_file) (files empty_state)\<rparr>)
        = Inr (success_response healthy_doc jpeg_file healthy_prediction ''healthy'',
               \<lparr>files = {path jpeg_file}, uploads = [healthy_doc]\<rparr>)"
    by (simp add: try_upload_def scenario_answer healthy_label scenario_healthy_doc save_def
        healthy_doc_valid scenario_insert empty_state_def)
  then show ?thesis
    by (simp add: post_upload_def scenario_auth scenario_intake upload_handler_def)
qed

lemma try_upload_Inl_cases:
  "try_upload e u f s = Inl err \<longleftrightarrow>
     axios_post e f = Threw err
     \<or> (\<exists>p. axios_post e f = Returned p \<and> label p = None \<and> err = type_error)
     \<or> (\<exists>p lbl. axios_post e f = Returned p \<and> label p = Some lbl
           \<and> save e (new_upload e u f p lbl) s = Inl err)"
  by (auto simp: try_upload_def Let_def split: outcome.splits option.splits sum.splits)

section \<open>Cleanup of the stored file\<close>

text \<open>
  Claim C1. Once the file is stored, if the classifier call throws or saving the record
  fails, the answer is an error (503 or 500), the stored file is gone from the disk and no
  record was added. So, for a request whose file name is not yet taken, the stored file is on
  disk when the request is answered exactly when a record was persisted; a request without a
  file part changes nothing.
\<close>

theorem stored_file_kept_iff_persisted:
  assumes run: "post_upload e req s = (r, s')"
  shows "(\<forall>u f s1 err.
            authMiddleware e (authorization req) = Inr u
          \<and> upload_single e (image_part req) s = Inr (Some f, s1)
          \<and> (axios_post e f = Threw err
               \<or> (\<exists>p lbl. axios_post e f = Returned p \<and> label p = Some lbl
                     \<and> save e (new_upload e u f p lbl) s1 = Inl err))
          \<longrightarrow> path f \<notin> files s' \<and> uploads s' = uploads s
                \<and> status r = (if err_code err = Some ''ECONNREFUSED'' then 503 else 500))
       \<and> (\<forall>p. image_part req = Some p \<and> stored_path e p \<notin> files s
            \<longrightarrow> (stored_path e p \<in> files s' \<longleftrightarrow> uploads s' \<noteq> uploads s))
       \<and> (image_part req = None \<longrightarrow> files s' = files s \<and> uploads s' = uploads s)"
proof (intro conjI allI impI)
  fix u f s1 err
  assume h: "authMiddleware e (authorization req) = Inr u
          \<and> upload_single e (image_part req) s = Inr (Some f, s1)
          \<and> (axios_post e f = Threw err
               \<or> (\<exists>p lbl. axios_post e f = Returned p \<and> label p = Some lbl
                     \<and> save e (new_upload e u f p lbl) s1 = Inl err))"
  then have "try_upload e u f s1 = Inl err"
    by (subst try_upload_Inl_cases) blast
  with h run have c: "catch_upload f err s1 = (r, s')"
    by (simp add: post_upload_def upload_handler_def)
  from upload_single_Inr [of e "image_part req" s "Some f" s1] h
  have s1: "uploads s1 = uploads s" by auto
  from c have "s' = snd (catch_upload f err s1)" "r = fst (catch_upload f err s1)" by simp_all
  then show "path f \<notin> files s'" "uploads s' = uploads s"
    "status r = (if err_code err = Some ''ECONNREFUSED'' then 503 else 500)"
    using s1 by (simp_all add: catch_upload_files catch_upload_uploads catch_upload_status)
next
  fix p
  assume h: "image_part req = Some p \<and> stored_path e p \<notin> files s"
  from post_upload_cases [OF run] consider
      (unchanged) "s' = s"
    | (handler) u fl s1 where "upload_single e (image_part req) s = Inr (fl, s1)"
        "upload_handler e u fl s1 = (r, s')"
    by blast
  then show "stored_path e p \<in> files s' \<longleftrightarrow> uploads s' \<noteq> uploads s"
  proof cases
    case unchanged
    with h show ?thesis by simp
  next
    case handler
    from upload_single_Inr [OF handler(1)] h obtain f where
      f: "fl = Some f" "path f = stored_path e p" "s1 = s\<lparr>files := insert (path f) (files s)\<rparr>"
      by (auto simp: stored_path_def)
    from upload_handler_cases [OF handler(2)] f(1) consider
        (caught) err where "(r, s') = catch_upload f err s1"
      | (saved) "try_upload e u f s1 = Inr (r, s')"
      by auto
    then show ?thesis
    proof cases
      case caught
      then have "s' = snd (catch_upload f err s1)" by (metis snd_conv)
      then show ?thesis
        using f by (simp add: catch_upload_files catch_upload_uploads)
    next
      case saved
      from try_upload_Inr [OF saved] f show ?thesis by auto
    qed
  qed
next
  assume h: "image_part req = None"
  from post_upload_cases [OF run] consider
      (unchanged) "s' = s"
    | (handler) u fl s1 where "upload_single e (image_part req) s = Inr (fl, s1)"
        "upload_handler e u fl s1 = (r, s')"
    by blast
  then have "s' = s"
  proof cases
    case unchanged
    then show ?thesis .
  next
    case handler
    from upload_single_Inr [OF handler(1)] h have "fl = None" "s1 = s" by auto
    with upload_handler_cases [OF handler(2)] show ?thesis by auto
  qed
  then show "files s' = files s" "uploads s' = uploads s" by simp_all
qed

theorem stored_file_kept_iff_persisted_witness:
  "path jpeg_file \<notin> files (snd (post_upload (scenario_env (Threw connection_refused))
                                   jpeg_request empty_state))
   \<and> uploads (snd (post_upload (scenario_env (Threw connection_refused))
                                   jpeg_request empty_state)) = []
   \<and> status (fst (post_upload (scenario_env (Threw connection_refused))
                                   jpeg_request empty_state)) = 503
   \<and> stored_path (scenario_env (Returned healthy_prediction)) jpeg_part \<notin> files empty_state
   \<and> stored_path (scenario_env (Returned healthy_prediction)) jpeg_part
        \<in> files (snd (post_upload (scenario_env (Returned healthy_prediction))
                                   jpeg_request empty_state))
   \<and> uploads (snd (post_upload (scenario_env (Returned healthy_prediction))
                                   jpeg_request empty_state)) \<noteq> uploads empty_state
   \<and> files (snd (post_upload (scenario_env (Returned healthy_prediction))
                   (request_with (Some ''Bearer good'') None) empty_state)) = {}"
proof -
  let ?down = "scenario_env (Threw connection_refused)"
  let ?up = "scenario_env (Returned healthy_prediction)"
  have refused: "axios_post ?down jpeg_file = Threw connection_refused"
    by (simp add: scenario_env_def)
  have a: "path jpeg_file \<notin> files (snd (post_upload ?down jpeg_request empty_state))
      \<and> uploads (snd (post_upload ?down jpeg_request empty_state)) = []
      \<and> status (fst (post_upload ?down jpeg_request empty_state)) = 503"
    using stored_file_kept_iff_persisted
        [of ?down jpeg_request empty_state "fst (post_upload ?down jpeg_request empty_state)"
            "snd (post_upload ?down jpeg_request empty_state)"]
      scenario_auth [of "Threw connection_refused"]
      scenario_intake [of "Threw connection_refused" empty_state] refused
    by (simp add: empty_state_def connection_refused_def)
  have part: "image_part jpeg_request = Some jpeg_part"
    by (simp add: jpeg_request_def request_with_def)
  have fresh: "stored_path ?up jpeg_part \<notin> files empty_state"
    by (simp add: empty_state_def)
  have persisted: "uploads (snd (post_upload ?up jpeg_request empty_state)) \<noteq> uploads empty_state"
    unfolding scenario_healthy_run by (simp add: empty_state_def)
  have b: "stored_path ?up jpeg_part \<in> files (snd (post_upload ?up jpeg_request empty_state))"
    using stored_file_kept_iff_persisted
        [of ?up jpeg_request empty_state "fst (post_upload ?up jpeg_request empty_state)"
            "snd (post_upload ?up jpeg_request empty_state)"]
      part fresh persisted
    by simp
  have c: "files (snd (post_upload ?up (request_with (Some ''Bearer good'') None) empty_state)) = {}"
    using stored_file_kept_iff_persisted
        [of ?up "request_with (Some ''Bearer good'') None" empty_state
            "fst (post_upload ?up (request_with (Some ''Bearer good'') None) empty_state)"
            "snd (post_upload ?up (request_with (Some ''Bearer good'') None) empty_state)"]
    by (simp add: request_with_def empty_state_def)
  from a b c fresh persisted show ?thesis by simp
qed

section \<open>Accepted uploads\<close>

lemma invalid_paths_Nil:
  "invalid_paths d = [] \<longleftrightarrow>
     imageURL d \<noteq> [] \<and> doc_filename d \<noteq> [] \<and> doc_label d \<in> set label_enum
     \<and> (\<exists>c. doc_confidence d = Some c \<and> 0 \<le> c \<and> c \<le> 1)"
  by (auto simp: invalid_paths_def label_enum_def split: option.splits)

lemma validation_error_code: "err_code (validation_error ps) = None"
  by (simp add: validation_error_def)

lemma post_upload_not_200:
  assumes run: "post_upload e req s = (r, s')" and no: "status r \<noteq> 200"
  shows "uploads s' = uploads s"
proof -
  from post_upload_cases [OF run] consider
      (unchanged) "s' = s"
    | (handler) u fl s1 where "upload_single e (image_part req) s = Inr (fl, s1)"
        "upload_handler e u fl s1 = (r, s')"
    by blast
  then show ?thesis
  proof cases
    case unchanged
    then show ?thesis by simp
  next
    case handler
    from upload_single_Inr [OF handler(1)] have s1: "uploads s1 = uploads s" by auto
    from upload_handler_cases [OF handler(2)] consider
        (nofile) "s' = s1"
      | (caught) f err where "(r, s') = catch_upload f err s1"
      | (saved) f where "try_upload e u f s1 = Inr (r, s')"
      by blast
    then show ?thesis
    proof cases
      case nofile
      with s1 show ?thesis by simp
    next
      case caught
      then have "s' = snd (catch_upload f err s1)" by (metis snd_conv)
      with s1 show ?thesis by (simp add: catch_upload_uploads)
    next
      case saved
      from try_upload_Inr [OF saved] no show ?thesis
        by (auto simp: success_response_def)
    qed
  qed
qed

lemma post_upload_rejected:
  assumes auth: "authMiddleware e (authorization req) = Inr u"
    and intake: "upload_single e (image_part req) s = Inr (Some f, s1)"
    and answer: "axios_post e f = Returned p" "label p = Some lbl"
    and bad: "invalid_paths (new_upload e u f p lbl) \<noteq> []"
  shows "post_upload e req s
           = catch_upload f (validation_error (invalid_paths (new_upload e u f p lbl))) s1"
  using assms by (simp add: post_upload_def upload_handler_def try_upload_def save_def Let_def)

lemma pick_disease_in_map:
  assumes "0 \<le> r" "r < 1"
  shows "\<exists>i \<in> snd ` set diseaseInfoMap. pick_disease r = Some i"
proof -
  have len: "length (map fst diseaseInfoMap) = 4"
    by (simp add: diseaseInfoMap_def)
  have lo: "0 \<le> \<lfloor>r * 4\<rfloor>" using assms by simp
  have "r * 4 < 4" using assms by simp
  then have hi: "\<lfloor>r * 4\<rfloor> < 4" by (simp add: floor_less_iff)
  from lo hi have "nat \<lfloor>r * 4\<rfloor> < 4" by linarith
  then consider "nat \<lfloor>r * 4\<rfloor> = 0" | "nat \<lfloor>r * 4\<rfloor> = Suc 0"
    | "nat \<lfloor>r * 4\<rfloor> = Suc (Suc 0)" | "nat \<lfloor>r * 4\<rfloor> = Suc (Suc (Suc 0))"
    by arith
  then show ?thesis
    using lo by cases (simp_all add: pick_disease_def Let_def len, simp_all add: diseaseInfoMap_def)
qed

lemma success_response_disease:
  "get_in [''data'', ''prediction'', ''disease''] (body (success_response d f p lbl))
     = Some (case diseaseInfo d of None \<Rightarrow> JNull | Some i \<Rightarrow> JStr (disease_name i))"
  by (cases "confidence p") (simp_all add: success_response_def)

lemma success_response_measures:
  "get_in [''data'', ''prediction'', ''preventiveMeasures''] (body (success_response d f p lbl))
     = Some (case diseaseInfo d of None \<Rightarrow> JArr []
             | Some i \<Rightarrow> JArr (map JStr (preventiveMeasures i)))"
  by (cases "confidence p") (simp_all add: success_response_def)

lemma diseaseInfo_new_upload: "diseaseInfo (new_upload e u f p lbl) = enrich e lbl"
  by (simp add: new_upload_def)

text \<open>
  Claim C2. For an accepted upload (status 200), with \<^verbatim>\<open>Math.random()\<close> in \<open>[0, 1)\<close>: the
  stored record has a \<^verbatim>\<open>diseaseInfo\<close> exactly when the classifier's label, in lower case,
  is \<open>diseased\<close>; for a \<open>healthy\<close> label the answer carries \<^verbatim>\<open>disease: null\<close> and an
  empty \<^verbatim>\<open>preventiveMeasures\<close>; for a \<open>diseased\<close> label it carries the name and the
  preventive measures of the profile stored in the record, one of the four of the map.
\<close>

theorem disease_info_iff_diseased:
  assumes run: "post_upload e req s = (r, s')" and ok: "status r = 200"
    and rnd: "0 \<le> random_disease e" "random_disease e < 1"
  shows "\<exists>f p lbl d.
           axios_post e f = Returned p \<and> label p = Some lbl \<and> uploads s' = uploads s @ [d]
         \<and> (diseaseInfo d \<noteq> None \<longleftrightarrow> toLowerCase lbl = ''diseased'')
         \<and> (toLowerCase lbl = ''healthy'' \<longrightarrow>
              get_in [''data'', ''prediction'', ''disease''] (body r) = Some JNull
            \<and> get_in [''data'', ''prediction'', ''preventiveMeasures''] (body r) = Some (JArr []))
         \<and> (toLowerCase lbl = ''diseased'' \<longrightarrow>
              (\<exists>i \<in> snd ` set diseaseInfoMap.
                  diseaseInfo d = Some i
                \<and> get_in [''data'', ''prediction'', ''disease''] (body r)
                    = Some (JStr (disease_name i))
                \<and> get_in [''data'', ''prediction'', ''preventiveMeasures''] (body r)
                    = Some (JArr (map JStr (preventiveMeasures i)))))"
proof -
  from post_upload_200 [OF run ok] obtain u f p lbl where
    p: "axios_post e f = Returned p" "label p = Some lbl"
      "r = success_response (new_upload e u f p lbl) f p lbl"
      "uploads s' = uploads s @ [new_upload e u f p lbl]"
    by auto
  let ?d = "new_upload e u f p lbl"
  from pick_disease_in_map [OF rnd] obtain i where
    i: "i \<in> snd ` set diseaseInfoMap" "pick_disease (random_disease e) = Some i"
    by blast
  have iff: "diseaseInfo ?d \<noteq> None \<longleftrightarrow> toLowerCase lbl = ''diseased''"
    using i by (simp add: diseaseInfo_new_upload enrich_def)
  have healthy: "toLowerCase lbl = ''healthy'' \<longrightarrow>
        get_in [''data'', ''prediction'', ''disease''] (body r) = Some JNull
      \<and> get_in [''data'', ''prediction'', ''preventiveMeasures''] (body r) = Some (JArr [])"
    unfolding p(3) success_response_disease success_response_measures
    by (simp add: diseaseInfo_new_upload enrich_def)
  have diseased: "toLowerCase lbl = ''diseased'' \<longrightarrow>
        (\<exists>i \<in> snd ` set diseaseInfoMap.
            diseaseInfo ?d = Some i
          \<and> get_in [''data'', ''prediction'', ''disease''] (body r) = Some (JStr (disease_name i))
          \<and> get_in [''data'', ''prediction'', ''preventiveMeasures''] (body r)
              = Some (JArr (map JStr (preventiveMeasures i))))"
    unfolding p(3) success_response_disease success_response_measures
    using i by (auto simp: diseaseInfo_new_upload enrich_def)
  from p(1,2,4) iff healthy diseased show ?thesis by blast
qed


lemma diseased_label: "label diseased_prediction = Some ''Diseased''"
  by (simp add: diseased_prediction_def)

lemma scenario_random: "random_disease (scenario_env a) = 1 / 2"
  by (simp add: scenario_env_def)

lemma pick_disease_half: "pick_disease (1 / 2) = map_of diseaseInfoMap ''muscardine''"
  by (simp add: pick_disease_def Let_def diseaseInfoMap_def numeral_eq_Suc)

lemma scenario_diseased_doc:
  "new_upload (scenario_env a) farmer jpeg_file diseased_prediction ''Diseased'' = diseased_doc"
  by (simp add: new_upload_def enrich_def toLowerCase_enum scenario_random pick_disease_half)
     (simp add: scenario_env_def farmer_def jpeg_file_def diseased_prediction_def
        diseased_doc_def or_null_def)

lemma diseased_doc_valid: "invalid_paths diseased_doc = []"
  by (simp add: invalid_paths_def diseased_doc_def label_enum_def)

lemma scenario_diseased_run:
  "post_upload (scenario_env (Returned diseased_prediction)) jpeg_request empty_state
     = (success_response diseased_doc jpeg_file diseased_prediction ''Diseased'',
        \<lparr>files = {path jpeg_file}, uploads = [diseased_doc]\<rparr>)"
proof -
  have "try_upload (scenario_env (Returned diseased_prediction)) farmer jpeg_file
          (empty_state\<lparr>files := insert (path jpeg_file) (files empty_state)\<rparr>)
        = Inr (success_response diseased_doc jpeg_file diseased_prediction ''Diseased'',
               \<lparr>files = {path jpeg_file}, uploads = [diseased_doc]\<rparr>)"
    by (simp add: try_upload_def scenario_answer diseased_label scenario_diseased_doc save_def
        diseased_doc_valid scenario_insert empty_state_def)
  then show ?thesis
    by (simp add: post_upload_def scenario_auth scenario_intake upload_handler_def)
qed

lemma status_success_response: "status (success_response d f p lbl) = 200"
  by (simp add: success_response_def)

theorem disease_info_iff_diseased_witness:
  "get_in [''data'', ''prediction'', ''disease'']
       (body (fst (post_upload (scenario_env (Returned healthy_prediction)) jpeg_request empty_state)))
     = Some JNull
   \<and> get_in [''data'', ''prediction'', ''preventiveMeasures'']
       (body (fst (post_upload (scenario_env (Returned healthy_prediction)) jpeg_request empty_state)))
     = Some (JArr [])
   \<and> (\<exists>i \<in> snd ` set diseaseInfoMap.
         get_in [''data'', ''prediction'', ''disease'']
           (body (fst (post_upload (scenario_env (Returned diseased_prediction)) jpeg_request
              empty_state)))
         = Some (JStr (disease_name i)))"
proof -
  let ?a = "scenario_env (Returned healthy_prediction)"
  let ?b = "scenario_env (Returned diseased_prediction)"
  have rnd: "0 \<le> random_disease (scenario_env x)" "random_disease (scenario_env x) < 1" for x
    by (simp_all add: scenario_random)
  have "status (fst (post_upload ?a jpeg_request empty_state)) = 200"
    by (simp add: scenario_healthy_run status_success_response)
  from disease_info_iff_diseased [OF prod.collapse [symmetric] this rnd]
  obtain f p lbl where
    "axios_post ?a f = Returned p" "label p = Some lbl"
    "toLowerCase lbl = ''healthy'' \<longrightarrow>
        get_in [''data'', ''prediction'', ''disease'']
          (body (fst (post_upload ?a jpeg_request empty_state))) = Some JNull
      \<and> get_in [''data'', ''prediction'', ''preventiveMeasures'']
          (body (fst (post_upload ?a jpeg_request empty_state))) = Some (JArr [])"
    by blast
  then have a: "get_in [''data'', ''prediction'', ''disease'']
          (body (fst (post_upload ?a jpeg_request empty_state))) = Some JNull
      \<and> get_in [''data'', ''prediction'', ''preventiveMeasures'']
          (body (fst (post_upload ?a jpeg_request empty_state))) = Some (JArr [])"
    using toLowerCase_enum(1) by (auto simp: scenario_answer healthy_label)
  have "status (fst (post_upload ?b jpeg_request empty_state)) = 200"
    by (simp add: scenario_diseased_run status_success_response)
  from disease_info_iff_diseased [OF prod.collapse [symmetric] this rnd]
  obtain f p lbl where
    "axios_post ?b f = Returned p" "label p = Some lbl"
    "toLowerCase lbl = ''diseased'' \<longrightarrow>
       (\<exists>i \<in> snd ` set diseaseInfoMap.
           get_in [''data'', ''prediction'', ''disease'']
             (body (fst (post_upload ?b jpeg_request empty_state)))
           = Some (JStr (disease_name i)))"
    by blast
  then have b: "\<exists>i \<in> snd ` set diseaseInfoMap.
           get_in [''data'', ''prediction'', ''disease'']
             (body (fst (post_upload ?b jpeg_request empty_state)))
           = Some (JStr (disease_name i))"
    using toLowerCase_enum(4) by (auto simp: scenario_answer diseased_label)
  from a b show ?thesis by simp
qed

text \<open>
  Claim C7. The record of an accepted upload has a confidence in \<open>[0, 1]\<close>. When the
  classifier's confidence is missing or outside \<open>[0, 1]\<close>, the save is refused: the answer
  has status 500, no record is added and the stored file is removed. So a collection whose
  confidences are all in range stays so.
\<close>

theorem stored_confidence_in_unit_interval:
  assumes run: "post_upload e req s = (r, s')"
  shows "(status r = 200 \<longrightarrow>
            (\<exists>d c. uploads s' = uploads s @ [d] \<and> doc_confidence d = Some c \<and> 0 \<le> c \<and> c \<le> 1))
       \<and> (\<forall>u f s1 p lbl.
              authMiddleware e (authorization req) = Inr u
            \<and> upload_single e (image_part req) s = Inr (Some f, s1)
            \<and> axios_post e f = Returned p \<and> label p = Some lbl
            \<and> (\<forall>c. confidence p = Some c \<longrightarrow> c < 0 \<or> 1 < c)
            \<longrightarrow> status r = 500 \<and> uploads s' = uploads s \<and> path f \<notin> files s')
       \<and> ((\<forall>d \<in> set (uploads s). confidence_in_range d)
            \<longrightarrow> (\<forall>d \<in> set (uploads s'). confidence_in_range d))"
proof (intro conjI allI impI ballI)
  assume ok: "status r = 200"
  from post_upload_200 [OF run ok] obtain u f p lbl where
    p: "invalid_paths (new_upload e u f p lbl) = []"
      "uploads s' = uploads s @ [new_upload e u f p lbl]"
    by auto
  from p(1) obtain c where "doc_confidence (new_upload e u f p lbl) = Some c" "0 \<le> c" "c \<le> 1"
    unfolding invalid_paths_Nil by blast
  with p(2) show "\<exists>d c. uploads s' = uploads s @ [d] \<and> doc_confidence d = Some c \<and> 0 \<le> c \<and> c \<le> 1"
    by blast
next
  fix u f s1 p lbl
  assume h: "authMiddleware e (authorization req) = Inr u
            \<and> upload_single e (image_part req) s = Inr (Some f, s1)
            \<and> axios_post e f = Returned p \<and> label p = Some lbl
            \<and> (\<forall>c. confidence p = Some c \<longrightarrow> c < 0 \<or> 1 < c)"
  let ?d = "new_upload e u f p lbl"
  have "doc_confidence ?d = confidence p" by (simp add: new_upload_def)
  with h have "invalid_paths ?d \<noteq> []"
    unfolding invalid_paths_Nil by auto
  with h have "post_upload e req s = catch_upload f (validation_error (invalid_paths ?d)) s1"
    by (simp add: post_upload_rejected)
  with run have c: "r = fst (catch_upload f (validation_error (invalid_paths ?d)) s1)"
      "s' = snd (catch_upload f (validation_error (invalid_paths ?d)) s1)"
    by simp_all
  from upload_single_Inr [of e "image_part req" s "Some f" s1] h
  have "uploads s1 = uploads s" by auto
  with c show "status r = 500" "uploads s' = uploads s" "path f \<notin> files s'"
    by (simp_all add: catch_upload_status catch_upload_uploads catch_upload_files
        validation_error_code)
next
  fix d
  assume inv: "\<forall>d \<in> set (uploads s). confidence_in_range d" and d: "d \<in> set (uploads s')"
  show "confidence_in_range d"
  proof (cases "status r = 200")
    case True
    from post_upload_200 [OF run True] obtain u f p lbl where
      p: "invalid_paths (new_upload e u f p lbl) = []"
        "uploads s' = uploads s @ [new_upload e u f p lbl]"
      by auto
    from p(1) have "confidence_in_range (new_upload e u f p lbl)"
      unfolding invalid_paths_Nil by (auto simp: confidence_in_range_def)
    with inv d p(2) show ?thesis by auto
  next
    case False
    from post_upload_not_200 [OF run False] inv d show ?thesis by simp
  qed
qed


lemma percent_label: "label percent_prediction = Some ''healthy''"
  by (simp add: percent_prediction_def)

lemma shouting_label: "label shouting_prediction = Some ''DISEASED''"
  by (simp add: shouting_prediction_def)

theorem stored_confidence_in_unit_interval_witness:
  "(\<exists>d c. uploads (snd (post_upload (scenario_env (Returned healthy_prediction)) jpeg_request
                empty_state)) = uploads empty_state @ [d]
         \<and> doc_confidence d = Some c \<and> 0 \<le> c \<and> c \<le> 1)
   \<and> status (fst (post_upload (scenario_env (Returned percent_prediction)) jpeg_request
                empty_state)) = 500
   \<and> uploads (snd (post_upload (scenario_env (Returned percent_prediction)) jpeg_request
                empty_state)) = uploads empty_state
   \<and> list_all confidence_in_range (uploads after_healthy)
   \<and> list_all confidence_in_range
         (uploads (snd (post_upload (scenario_env (Returned diseased_prediction))
                jpeg_request after_healthy)))"
proof -
  let ?a = "scenario_env (Returned healthy_prediction)"
  let ?p = "scenario_env (Returned percent_prediction)"
  let ?b = "scenario_env (Returned diseased_prediction)"
  have ok: "status (fst (post_upload ?a jpeg_request empty_state)) = 200"
    by (simp add: scenario_healthy_run status_success_response)
  have a: "\<exists>d c. uploads (snd (post_upload ?a jpeg_request empty_state)) = uploads empty_state @ [d]
         \<and> doc_confidence d = Some c \<and> 0 \<le> c \<and> c \<le> 1"
    using stored_confidence_in_unit_interval [OF prod.collapse [symmetric],
        of ?a jpeg_request empty_state] ok
    by blast
  have out: "\<forall>c. confidence percent_prediction = Some c \<longrightarrow> c < 0 \<or> 1 < c"
    by (simp add: percent_prediction_def)
  have p: "status (fst (post_upload ?p jpeg_request empty_state)) = 500
      \<and> uploads (snd (post_upload ?p jpeg_request empty_state)) = uploads empty_state"
    using stored_confidence_in_unit_interval [OF prod.collapse [symmetric],
        of ?p jpeg_request empty_state]
      scenario_auth [of "Returned percent_prediction"]
      scenario_intake [of "Returned percent_prediction" empty_state]
      scenario_answer [of "Returned percent_prediction" jpeg_file] percent_label out
    by blast
  have inv: "\<forall>d \<in> set (uploads after_healthy). confidence_in_range d"
    by (simp add: after_healthy_def confidence_in_range_def healthy_doc_def)
  have b: "\<forall>d \<in> set (uploads (snd (post_upload ?b jpeg_request after_healthy))).
      confidence_in_range d"
    using stored_confidence_in_unit_interval [OF prod.collapse [symmetric],
        of ?b jpeg_request after_healthy] inv
    by blast
  from a p inv b show ?thesis by (simp add: list_all_iff)
qed

text \<open>
  Claim C8, as stated, does not hold: the label \<open>Diseased\<close> is stored with its capital, and
  the label \<open>DISEASED\<close> is refused (status 500, nothing stored).
\<close>

theorem label_not_normalized_counterexample:
  "map doc_label (uploads (snd (post_upload (scenario_env (Returned diseased_prediction))
       jpeg_request empty_state))) = [''Diseased'']
   \<and> ''Diseased'' \<notin> {''healthy'', ''diseased''}
   \<and> status (fst (post_upload (scenario_env (Returned shouting_prediction)) jpeg_request
         empty_state)) = 500
   \<and> uploads (snd (post_upload (scenario_env (Returned shouting_prediction)) jpeg_request
         empty_state)) = []"
proof -
  let ?e = "scenario_env (Returned shouting_prediction)"
  have stored: "map doc_label (uploads (snd (post_upload (scenario_env (Returned diseased_prediction))
       jpeg_request empty_state))) = [''Diseased'']"
    by (simp add: scenario_diseased_run) (simp add: diseased_doc_def)
  have "doc_label (new_upload ?e farmer jpeg_file shouting_prediction ''DISEASED'') = ''DISEASED''"
    by (simp add: new_upload_def)
  then have "invalid_paths (new_upload ?e farmer jpeg_file shouting_prediction ''DISEASED'') \<noteq> []"
    unfolding invalid_paths_Nil by (simp add: label_enum_def)
  from post_upload_rejected [OF scenario_auth scenario_intake scenario_answer shouting_label this]
  have "post_upload ?e jpeg_request empty_state
      = catch_upload jpeg_file
          (validation_error
            (invalid_paths (new_upload ?e farmer jpeg_file shouting_prediction ''DISEASED'')))
          (empty_state\<lparr>files := insert (path jpeg_file) (files empty_state)\<rparr>)" .
  then have "status (fst (post_upload ?e jpeg_request empty_state)) = 500"
    "uploads (snd (post_upload ?e jpeg_request empty_state)) = []"
    by (simp_all add: catch_upload_status catch_upload_uploads validation_error_code
        empty_state_def)
  with stored show ?thesis by simp
qed

text \<open>
  Claim C8, amended. For an accepted upload the classifier's label is one of the four
  spellings of the schema's enum (\<open>healthy\<close>, \<open>diseased\<close>, \<open>Healthy\<close>, \<open>Diseased\<close>), the
  record stores it as received, and its lower-case form is \<open>healthy\<close> or \<open>diseased\<close>. A
  label outside the enum is refused with status 500 and no record is added.
\<close>

theorem label_in_enum_stored_as_received:
  assumes run: "post_upload e req s = (r, s')"
  shows "(status r = 200 \<longrightarrow>
            (\<exists>f p lbl d. axios_post e f = Returned p \<and> label p = Some lbl
               \<and> uploads s' = uploads s @ [d] \<and> doc_label d = lbl
               \<and> lbl \<in> set label_enum
               \<and> (toLowerCase lbl = ''healthy'' \<or> toLowerCase lbl = ''diseased'')))
       \<and> (\<forall>u f s1 p lbl.
              authMiddleware e (authorization req) = Inr u
            \<and> upload_single e (image_part req) s = Inr (Some f, s1)
            \<and> axios_post e f = Returned p \<and> label p = Some lbl
            \<and> lbl \<notin> set label_enum
            \<longrightarrow> status r = 500 \<and> uploads s' = uploads s)"
proof (intro conjI allI impI)
  assume ok: "status r = 200"
  from post_upload_200 [OF run ok] obtain u f p lbl where
    p: "axios_post e f = Returned p" "label p = Some lbl"
      "invalid_paths (new_upload e u f p lbl) = []"
      "uploads s' = uploads s @ [new_upload e u f p lbl]"
    by auto
  have lbl: "doc_label (new_upload e u f p lbl) = lbl" by (simp add: new_upload_def)
  with p(3) have mem: "lbl \<in> set label_enum"
    unfolding invalid_paths_Nil by simp
  then have "toLowerCase lbl = ''healthy'' \<or> toLowerCase lbl = ''diseased''"
    using toLowerCase_enum by (auto simp: label_enum_def)
  with p(1,2,4) lbl mem
  show "\<exists>f p lbl d. axios_post e f = Returned p \<and> label p = Some lbl
               \<and> uploads s' = uploads s @ [d] \<and> doc_label d = lbl
               \<and> lbl \<in> set label_enum
               \<and> (toLowerCase lbl = ''healthy'' \<or> toLowerCase lbl = ''diseased'')"
    by blast
next
  fix u f s1 p lbl
  assume h: "authMiddleware e (authorization req) = Inr u
            \<and> upload_single e (image_part req) s = Inr (Some f, s1)
            \<and> axios_post e f = Returned p \<and> label p = Some lbl
            \<and> lbl \<notin> set label_enum"
  let ?d = "new_upload e u f p lbl"
  have "doc_label ?d = lbl" by (simp add: new_upload_def)
  with h have "invalid_paths ?d \<noteq> []"
    unfolding invalid_paths_Nil by simp
  with h have "post_upload e req s = catch_upload f (validation_error (invalid_paths ?d)) s1"
    by (simp add: post_upload_rejected)
  with run have c: "r = fst (catch_upload f (validation_error (invalid_paths ?d)) s1)"
      "s' = snd (catch_upload f (validation_error (invalid_paths ?d)) s1)"
    by simp_all
  from upload_single_Inr [of e "image_part req" s "Some f" s1] h
  have "uploads s1 = uploads s" by auto
  with c show "status r = 500" "uploads s' = uploads s"
    by (simp_all add: catch_upload_status catch_upload_uploads validation_error_code)
qed

theorem label_in_enum_stored_as_received_witness:
  "(\<exists>d. uploads (snd (post_upload (scenario_env (Returned diseased_prediction)) jpeg_request
            empty_state)) = uploads empty_state @ [d]
        \<and> doc_label d = ''Diseased'' \<and> ''Diseased'' \<in> set label_enum
        \<and> toLowerCase ''Diseased'' = ''diseased'')
   \<and> ''DISEASED'' \<notin> set label_enum
   \<and> status (fst (post_upload (scenario_env (Returned shouting_prediction)) jpeg_request
        empty_state)) = 500
   \<and> uploads (snd (post_upload (scenario_env (Returned shouting_prediction)) jpeg_request
        empty_state)) = uploads empty_state"
proof -
  let ?b = "scenario_env (Returned diseased_prediction)"
  let ?e = "scenario_env (Returned shouting_prediction)"
  have ok: "status (fst (post_upload ?b jpeg_request empty_state)) = 200"
    by (simp add: scenario_diseased_run status_success_response)
  from label_in_enum_stored_as_received [OF prod.collapse [symmetric],
      of ?b jpeg_request empty_state] ok
  obtain f p lbl d where
    d: "axios_post ?b f = Returned p" "label p = Some lbl"
      "uploads (snd (post_upload ?b jpeg_request empty_state)) = uploads empty_state @ [d]"
      "doc_label d = lbl" "lbl \<in> set label_enum"
    by blast
  from d(1,2) have "lbl = ''Diseased''"
    by (auto simp: scenario_answer diseased_label)
  with d(3,4,5) have b: "\<exists>d. uploads (snd (post_upload ?b jpeg_request empty_state))
          = uploads empty_state @ [d]
        \<and> doc_label d = ''Diseased'' \<and> ''Diseased'' \<in> set label_enum
        \<and> toLowerCase ''Diseased'' = ''diseased''"
    using toLowerCase_enum(4) by (intro exI [of _ d]) simp
  have out: "''DISEASED'' \<notin> set label_enum"
    by (simp add: label_enum_def)
  have e: "status (fst (post_upload ?e jpeg_request empty_state)) = 500
      \<and> uploads (snd (post_upload ?e jpeg_request empty_state)) = uploads empty_state"
    using label_in_enum_stored_as_received [OF prod.collapse [symmetric],
        of ?e jpeg_request empty_state]
      scenario_auth [of "Returned shouting_prediction"]
      scenario_intake [of "Returned shouting_prediction" empty_state]
      scenario_answer [of "Returned shouting_prediction" jpeg_file] shouting_label out
    by blast
  from b out e show ?thesis by blast
qed

section \<open>The password hash stays in the store\<close>

lemma toJSON_hash: "toJSON (u\<lparr>passwordHash := h\<rparr>) = toJSON u"
  by (simp add: toJSON_def toObject_def delete_key_def)

lemma keys_of_toJSON: "''passwordHash'' \<notin> keys_of (toJSON u)"
  by (cases "village u"; cases "lastLogin u") (simp_all add: toJSON_def toObject_def delete_key_def)

lemma field_toJSON: "field ''passwordHash'' (toJSON u) = None"
  by (cases "village u"; cases "lastLogin u") (simp_all add: toJSON_def toObject_def delete_key_def)

text \<open>
  Claim C10. The JSON form of a user document does not depend on its password hash and has
  no \<^verbatim>\<open>passwordHash\<close> field; the answer of \<^verbatim>\<open>GET /auth/me\<close>, which embeds that JSON form,
  is the same whatever hashes the store holds, and no key \<^verbatim>\<open>passwordHash\<close> occurs anywhere
  in it.
\<close>

theorem password_hash_never_serialised:
  "toJSON (u\<lparr>passwordHash := h\<rparr>) = toJSON u
   \<and> field ''passwordHash'' (toJSON u) = None
   \<and> ''passwordHash'' \<notin> keys_of (toJSON u)
   \<and> get_me (e\<lparr>User_findById := with_hashes g (User_findById e)\<rparr>) a = get_me e a
   \<and> ''passwordHash'' \<notin> keys_of (body (get_me e a))"
proof (intro conjI)
  show "get_me (e\<lparr>User_findById := with_hashes g (User_findById e)\<rparr>) a = get_me e a"
    by (simp add: get_me_def with_hashes_def toJSON_hash Let_def
        split: option.splits outcome.splits)
  show "''passwordHash'' \<notin> keys_of (body (get_me e a))"
    by (simp add: get_me_def Let_def fail_json_def invalid_token_def keys_of_toJSON
        split: option.splits outcome.splits)
qed (simp_all add: toJSON_hash keys_of_toJSON field_toJSON)

section \<open>Credential verification\<close>

text \<open>
  The outcomes of the middleware: 401 when the header is absent or empty, and 401 when it
  has no non-empty second piece after a space; 403 when the token fails verification; 404
  when the token's subject is not in the identity store; otherwise the stored user is
  attached to the request and the next stage runs.
\<close>

lemma authMiddleware_outcomes:
  "(h = None \<or> h = Some [] \<longrightarrow> authMiddleware e h = Inl (fail_json 401 ''No token provided''))
   \<and> (\<forall>x. h = Some x \<and> x \<noteq> []
          \<and> (index_opt (split_space x) 1 = None \<or> index_opt (split_space x) 1 = Some [])
        \<longrightarrow> authMiddleware e h = Inl (fail_json 401 ''Invalid token format''))
   \<and> (\<forall>x t err. h = Some x \<and> x \<noteq> [] \<and> index_opt (split_space x) 1 = Some t \<and> t \<noteq> []
          \<and> jwt_verify e t = Threw err
        \<longrightarrow> authMiddleware e h = Inl (fail_json 403 ''Token invalid or expired''))
   \<and> (\<forall>x t d. h = Some x \<and> x \<noteq> [] \<and> index_opt (split_space x) 1 = Some t \<and> t \<noteq> []
          \<and> jwt_verify e t = Returned d \<and> User_findById e (userId d) = Returned None
        \<longrightarrow> authMiddleware e h = Inl (fail_json 404 ''User not found''))
   \<and> (\<forall>x t d u. h = Some x \<and> x \<noteq> [] \<and> index_opt (split_space x) 1 = Some t \<and> t \<noteq> []
          \<and> jwt_verify e t = Returned d \<and> User_findById e (userId d) = Returned (Some u)
        \<longrightarrow> authMiddleware e h = Inr u)"
  by (auto simp: authMiddleware_def)

lemma split_bearer:
  "split_space ''Bearer'' = [''Bearer'']"
  "split_space ''Bearer forged'' = [''Bearer'', ''forged'']"
  "split_space ''Bearer stale'' = [''Bearer'', ''stale'']"
  "split_space ''Bearer good'' = [''Bearer'', ''good'']"
  by simp_all

lemma authMiddleware_scenarios:
  "authMiddleware (scenario_env a) None = Inl (fail_json 401 ''No token provided'')"
  "authMiddleware (scenario_env a) (Some ''Bearer'') = Inl (fail_json 401 ''Invalid token format'')"
  "authMiddleware (scenario_env a) (Some ''Bearer stale'') = Inl (fail_json 404 ''User not found'')"
  "authMiddleware (scenario_env a) (Some ''Bearer good'') = Inr farmer"
  by (simp_all add: authMiddleware_def split_bearer scenario_env_def)

lemma get_me_scenarios:
  "get_me (scenario_env a) None = fail_json 401 ''No token provided''"
  "get_me (scenario_env a) (Some ''Bearer stale'') = fail_json 404 ''User not found''"
  "get_me (scenario_env a) (Some ''Bearer forged'') = invalid_token jwt_error"
  by (simp_all add: get_me_def split_bearer scenario_env_def)

text \<open>
  Claim C5 fails on the code. A token that fails verification is answered by the middleware
  with status 403, where the claim says 401; the credential check of \<^verbatim>\<open>GET /auth/me\<close>
  answers 401 for the same token. So \<^verbatim>\<open>POST /upload\<close> with such a token is answered 403.
\<close>

theorem invalid_token_answered_403:
  "jwt_verify (scenario_env (Returned healthy_prediction)) ''forged'' = Threw jwt_error
   \<and> authMiddleware (scenario_env (Returned healthy_prediction)) (Some ''Bearer forged'')
       = Inl (fail_json 403 ''Token invalid or expired'')
   \<and> status (fst (server_post_upload (scenario_env (Returned healthy_prediction))
         \<lparr>header_authorization = Some ''Bearer forged'',
          http_body = Multipart (Some jpeg_part)\<rparr> empty_state)) = 403
   \<and> status (get_me (scenario_env (Returned healthy_prediction)) (Some ''Bearer forged'')) = 401"
proof -
  let ?e = "scenario_env (Returned healthy_prediction)"
  have v: "jwt_verify ?e ''forged'' = Threw jwt_error"
    by (simp add: scenario_env_def)
  have m: "authMiddleware ?e (Some ''Bearer forged'')
      = Inl (fail_json 403 ''Token invalid or expired'')"
    by (rule scenario_forged)
  then have p: "status (fst (server_post_upload ?e
         \<lparr>header_authorization = Some ''Bearer forged'',
          http_body = Multipart (Some jpeg_part)\<rparr> empty_state)) = 403"
    by (simp add: server_post_upload_def post_upload_def routed_def fail_json_def)
  have g: "status (get_me ?e (Some ''Bearer forged'')) = 401"
    by (simp add: get_me_scenarios invalid_token_def)
  from v m p g show ?thesis by simp
qed

section \<open>Statistics\<close>

lemma getUserStats_labels:
  "set (map stats_id (getUserStats coll uid)) = doc_label ` {d \<in> set coll. doc_userId d = uid}"
  by (auto simp: getUserStats_def group_stats_def Let_def)

lemma getUserStats_distinct: "distinct (map stats_id (getUserStats coll uid))"
proof -
  have "map stats_id (getUserStats coll uid)
      = remdups (map doc_label (filter (\<lambda>d. doc_userId d = uid) coll))"
    by (simp add: getUserStats_def group_stats_def Let_def comp_def)
  then show ?thesis by simp
qed

lemma getUserStats_group:
  assumes "g \<in> set (getUserStats coll uid)"
  shows "stats_count g = length (filter (\<lambda>d. doc_userId d = uid \<and> doc_label d = stats_id g) coll)
       \<and> avgConfidence g
           = avg (numeric_confidences
                    (filter (\<lambda>d. doc_userId d = uid \<and> doc_label d = stats_id g) coll))"
proof -
  have "filter (\<lambda>d. doc_label d = l) (filter (\<lambda>d. doc_userId d = uid) coll)
      = filter (\<lambda>d. doc_userId d = uid \<and> doc_label d = l) coll" for l
    by (simp add: conj_commute)
  with assms show ?thesis
    by (auto simp: getUserStats_def group_stats_def Let_def)
qed

text \<open>
  Claim C6 fails on the code. The model's aggregation exists (the three lemmas above give
  its groups, counts and means), but the upload router registers no \<^verbatim>\<open>/stats\<close> route:
  \<^verbatim>\<open>GET /upload/stats\<close> falls through to the application's 404 handler.
\<close>

theorem stats_route_not_registered:
  "app_route GET ''/upload/stats'' = Not_found
   \<and> upload_router GET ''/stats'' = None
   \<and> app_route GET ''/upload/history'' = Upload_history
   \<and> status not_found_handler = 404"
  by (simp add: app_route_def via_def mounted_def startsWith_def auth_router_def
      upload_router_def not_found_handler_def fail_json_def)

section \<open>Refused files\<close>

text \<open>
  Claim C4 fails on the code. A text file, and an image over the size limit, are refused by
  multer with an error that has no \<^verbatim>\<open>status\<close>, so the application's error handler
  answers 500 rather than 400; only the missing file is answered 400 by the route itself.
  Nothing is written in any of the three cases.
\<close>

theorem non_image_answered_500:
  "post_upload (scenario_env (Returned healthy_prediction))
       (request_with (Some ''Bearer good'') (Some text_part)) empty_state
     = (\<lparr>status = 500,
         body = JObj [(''success'', JBool False),
                      (''message'', JStr ''Only image files allowed''),
                      (''error'', JObj [])]\<rparr>, empty_state)
   \<and> post_upload (scenario_env (Returned healthy_prediction))
       (request_with (Some ''Bearer good'') (Some huge_part)) empty_state
     = (\<lparr>status = 500,
         body = JObj [(''success'', JBool False),
                      (''message'', JStr ''File too large''),
                      (''error'', JObj [])]\<rparr>, empty_state)
   \<and> post_upload (scenario_env (Returned healthy_prediction))
       (request_with (Some ''Bearer good'') None) empty_state
     = (fail_json 400 ''No image file provided'', empty_state)"
proof -
  let ?e = "scenario_env (Returned healthy_prediction)"
  have auth: "authMiddleware ?e (Some ''Bearer good'') = Inr farmer"
    by (simp add: authMiddleware_def scenario_env_def)
  have dev: "\<not> node_env_development ?e"
    by (simp add: scenario_env_def)
  have refused: "upload_single ?e (Some text_part) empty_state
      = Inl \<lparr>err_status = None, err_code = None,
             err_message = ''Only image files allowed'', err_enumerable = []\<rparr>"
    by (simp add: upload_single_def fileFilter_def startsWith_def text_part_def)
  have toolarge: "upload_single ?e (Some huge_part) empty_state = Inl limit_file_size_error"
    by (simp add: upload_single_def fileFilter_def startsWith_def huge_part_def fileSize_limit_def)
  have nofile: "upload_single ?e None empty_state = Inr (None, empty_state)"
    by (simp add: upload_single_def)
  show ?thesis
    by (simp add: post_upload_def request_with_def auth refused toolarge nofile error_handler_def dev
        limit_file_size_error_def upload_handler_def)
qed

end
